theory Spec2Isabelle
  imports Complex_Main "HOL-Library.AList"
begin

section \<open>The banking application: data model\<close>

text \<open>
  The tables of \<^verbatim>\<open>banking_now_app.py\<close> are Python dictionaries from strings to
  dictionaries. A dictionary keeps its keys in insertion order and the interest run
  iterates over it, so a table is an association list: \<open>map_of\<close> is the lookup,
  \<open>AList.update\<close> the assignment \<^verbatim>\<open>d[k] = v\<close> (an existing key keeps its place, a new
  key goes to the end).

  Amounts are Python floats. The model leaves their arithmetic abstract: the type of
  amounts is a type variable \<open>'a\<close>, the operations \<^verbatim>\<open>+ - * < ==\<close> of the code are the
  operations of that type, and the built-in \<^verbatim>\<open>round(x, 2)\<close> and the float constant
  \<^verbatim>\<open>INTEREST_RATE = 0.015\<close> are parameters of the interest run. The definitions
  assume no law of arithmetic; a theorem that needs one says so in its sort constraint.
  The code compares amounts with \<^verbatim>\<open>==\<close> only against zero, which is read as equality
  with the zero of the type. The examples that depend on rounding, on the infinities or on
  not-a-number use a small arithmetic that has them.

  Messages printed on the console appear as the outcome of an operation. \<^verbatim>\<open>save_data\<close>
  writes the tables to the three files and changes none of them, so it does not appear.
\<close>

datatype 'a detail = DStr string | DNum 'a

record 'a transaction =
  timestamp :: string
  trans_type :: string
  amount :: 'a
  details :: "(string \<times> 'a detail) list"

record 'a account =
  owner_nic :: string
  balance :: 'a
  transactions :: "'a transaction list"
  created_at :: string

text \<open>
  A user dictionary has the key \<^verbatim>\<open>owned_accounts\<close> only for customers: the field is
  \<open>None\<close> when the key is absent.
\<close>

record user =
  name :: string
  address :: string
  dob :: string
  password_hash :: string
  role :: string
  owned_accounts :: "string list option"

record 'a bank =
  users :: "(string \<times> user) list"
  accounts :: "(string \<times> 'a account) list"
  next_account_number :: int

section \<open>Console input and outcomes\<close>

text \<open>
  Every operation reads the console. What \<^verbatim>\<open>input()\<close> delivers to one prompt is a finite
  list of entries; a loop that asks again consumes the next entry, and \<^verbatim>\<open>input()\<close> on
  an exhausted console raises \<^verbatim>\<open>EOFError\<close>. An entry of an amount prompt is the line
  after \<^verbatim>\<open>strip()\<close>, classified by what \<^verbatim>\<open>float\<close> does with it: \<open>Blank\<close> is the empty line,
  \<open>Invalid\<close> a line on which \<^verbatim>\<open>float\<close> raises \<^verbatim>\<open>ValueError\<close>, \<open>Amount x\<close> a line that
  parses to \<open>x\<close> (\<^verbatim>\<open>float\<close> parses \<^verbatim>\<open>inf\<close> and \<^verbatim>\<open>nan\<close> as well as decimal numbers). An entry of the choice prompt is \<open>None\<close> when \<^verbatim>\<open>int\<close> raises and
  \<open>Some c\<close> when it returns \<open>c\<close>.
\<close>

datatype 'a entry = Blank | Invalid | Amount 'a

datatype exn = EOFError | AttributeError | RecursionError | ValueError

datatype 'r py = Raise exn | Return 'r

text \<open>What an operation reports: one constructor for each message it can end with.\<close>

datatype 'a outcome =
    Succeeded
  | InterestApplied nat 'a
  | NoInterestApplied
  | NoAccountsInSystem
  | InvalidCustomerProfile
  | NoAccountChosen
  | AccountDataNotFound
  | NoFundsToWithdraw
  | InsufficientFunds
  | RecipientEmpty
  | SameAccount
  | RecipientNotFound
  | Raised exn

section \<open>Utility functions\<close>

text \<open>
  \<^verbatim>\<open>record_transaction(acc_num, trans_type, amount, **details)\<close>. The first argument
  \<open>ts\<close> is what \<^verbatim>\<open>get_timestamp()\<close> returns for this call.
\<close>

definition record_transaction ::
  "string \<Rightarrow> string \<Rightarrow> string \<Rightarrow> 'a \<Rightarrow> (string \<times> 'a detail) list \<Rightarrow>
   (string \<times> 'a account) list \<Rightarrow> (string \<times> 'a account) list" where
  "record_transaction ts acc_num ttype amt dets accs =
     (case map_of accs acc_num of
        None \<Rightarrow> accs
      | Some a \<Rightarrow>
          AList.update acc_num
            (a\<lparr>transactions := transactions a @
                [\<lparr>timestamp = ts, trans_type = ttype, amount = amt, details = dets\<rparr>]\<rparr>)
            accs)"

section \<open>Customer banking operations\<close>

text \<open>The \<^verbatim>\<open>while True\<close> loop of \<^verbatim>\<open>choose_customer_account\<close> over the choice prompt.\<close>

fun read_choice :: "string list \<Rightarrow> int option list \<Rightarrow> string option py" where
  "read_choice owned [] = Raise EOFError"
| "read_choice owned (None # es) = read_choice owned es"
| "read_choice owned (Some c # es) =
     (if 1 \<le> c \<and> c \<le> int (length owned) then Return (Some (owned ! nat (c - 1)))
      else read_choice owned es)"

text \<open>
  \<^verbatim>\<open>choose_customer_account\<close>: \<^verbatim>\<open>users.get(customer_nic)\<close> is \<^verbatim>\<open>None\<close> for an unknown
  customer and the next line calls \<^verbatim>\<open>.get\<close> on it, which raises \<^verbatim>\<open>AttributeError\<close>.
\<close>

definition choose_customer_account ::
  "(string \<times> user) list \<Rightarrow> string \<Rightarrow> int option list \<Rightarrow> string option py" where
  "choose_customer_account us customer_nic choices =
     (case map_of us customer_nic of
        None \<Rightarrow> Raise AttributeError
      | Some customer_data \<Rightarrow>
          (let owned = (case owned_accounts customer_data of None \<Rightarrow> [] | Some l \<Rightarrow> l) in
           if owned = [] then Return None
           else if length owned = 1 then Return (Some (owned ! 0))
           else read_choice owned choices))"

text \<open>
  The amount loop of \<^verbatim>\<open>make_deposit\<close>, \<^verbatim>\<open>make_withdrawal\<close> and \<^verbatim>\<open>transfer_funds\<close>:
  it leaves with the first entry that parses and is \<^verbatim>\<open>> 0\<close>.
\<close>

fun read_amount :: "'a::{zero,ord} entry list \<Rightarrow> 'a py" where
  "read_amount [] = Raise EOFError"
| "read_amount (Amount a # es) = (if 0 < a then Return a else read_amount es)"
| "read_amount (Blank # es) = read_amount es"
| "read_amount (Invalid # es) = read_amount es"

definition make_deposit ::
  "string \<Rightarrow> 'a::{zero,ord,plus} bank \<Rightarrow> string \<Rightarrow> int option list \<Rightarrow> 'a entry list \<Rightarrow>
   'a outcome \<times> 'a bank" where
  "make_deposit ts s customer_nic choices entries =
     (case choose_customer_account (users s) customer_nic choices of
        Raise e \<Rightarrow> (Raised e, s)
      | Return None \<Rightarrow> (NoAccountChosen, s)
      | Return (Some acc_num) \<Rightarrow>
          if acc_num = [] then (NoAccountChosen, s)
          else
            (case map_of (accounts s) acc_num of
               None \<Rightarrow> (AccountDataNotFound, s)
             | Some account \<Rightarrow>
                 (case read_amount entries of
                    Raise e \<Rightarrow> (Raised e, s)
                  | Return amt \<Rightarrow>
                      (Succeeded,
                       s\<lparr>accounts :=
                           record_transaction ts acc_num ''Deposit'' amt []
                             (AList.update acc_num
                                (account\<lparr>balance := balance account + amt\<rparr>)
                                (accounts s))\<rparr>))))"

text \<open>
  \<^verbatim>\<open>make_withdrawal\<close>: the test \<^verbatim>\<open>account["balance"] == 0\<close> comes before the amount
  prompt, so an empty account is turned away without an amount being read.
\<close>

definition make_withdrawal ::
  "string \<Rightarrow> 'a::{zero,ord,minus} bank \<Rightarrow> string \<Rightarrow> int option list \<Rightarrow> 'a entry list \<Rightarrow>
   'a outcome \<times> 'a bank" where
  "make_withdrawal ts s customer_nic choices entries =
     (case choose_customer_account (users s) customer_nic choices of
        Raise e \<Rightarrow> (Raised e, s)
      | Return None \<Rightarrow> (NoAccountChosen, s)
      | Return (Some acc_num) \<Rightarrow>
          if acc_num = [] then (NoAccountChosen, s)
          else
            (case map_of (accounts s) acc_num of
               None \<Rightarrow> (AccountDataNotFound, s)
             | Some account \<Rightarrow>
                 if balance account = 0 then (NoFundsToWithdraw, s)
                 else
                   (case read_amount entries of
                      Raise e \<Rightarrow> (Raised e, s)
                    | Return amt \<Rightarrow>
                        if balance account < amt then (InsufficientFunds, s)
                        else
                          (Succeeded,
                           s\<lparr>accounts :=
                               record_transaction ts acc_num ''Withdrawal'' amt []
                                 (AList.update acc_num
                                    (account\<lparr>balance := balance account - amt\<rparr>)
                                    (accounts s))\<rparr>))))"

text \<open>
  \<^verbatim>\<open>transfer_funds\<close>. The recipient prompt is read once (\<open>dests\<close>, the line after
  \<^verbatim>\<open>strip()\<close>); \<open>ts1\<close> and \<open>ts2\<close> are the two timestamps. Both account dictionaries are
  fetched before either is changed, and they are different objects because the two
  account numbers differ.
\<close>

definition transfer_funds ::
  "string \<Rightarrow> string \<Rightarrow> 'a::{zero,ord,plus,minus} bank \<Rightarrow> string \<Rightarrow> int option list \<Rightarrow>
   string list \<Rightarrow> 'a entry list \<Rightarrow> 'a outcome \<times> 'a bank" where
  "transfer_funds ts1 ts2 s customer_nic choices dests entries =
     (case choose_customer_account (users s) customer_nic choices of
        Raise e \<Rightarrow> (Raised e, s)
      | Return None \<Rightarrow> (NoAccountChosen, s)
      | Return (Some source_acc_num) \<Rightarrow>
          if source_acc_num = [] then (NoAccountChosen, s)
          else
            (case map_of (accounts s) source_acc_num of
               None \<Rightarrow> (AccountDataNotFound, s)
             | Some source_account \<Rightarrow>
                 (case dests of
                    [] \<Rightarrow> (Raised EOFError, s)
                  | dest_acc_num # _ \<Rightarrow>
                      if dest_acc_num = [] then (RecipientEmpty, s)
                      else if source_acc_num = dest_acc_num then (SameAccount, s)
                      else
                        (case map_of (accounts s) dest_acc_num of
                           None \<Rightarrow> (RecipientNotFound, s)
                         | Some dest_account \<Rightarrow>
                             (case read_amount entries of
                                Raise e \<Rightarrow> (Raised e, s)
                              | Return amt \<Rightarrow>
                                  if balance source_account < amt then (InsufficientFunds, s)
                                  else
                                    (Succeeded,
                                     s\<lparr>accounts :=
                                       record_transaction ts2 dest_acc_num ''Transfer Received'' amt
                                         [(''from_account'', DStr source_acc_num)]
                                         (record_transaction ts1 source_acc_num ''Transfer Sent'' amt
                                            [(''to_account'', DStr dest_acc_num)]
                                            (AList.update dest_acc_num
                                               (dest_account\<lparr>balance := balance dest_account + amt\<rparr>)
                                               (AList.update source_acc_num
                                                  (source_account\<lparr>balance :=
                                                     balance source_account - amt\<rparr>)
                                                  (accounts s))))\<rparr>))))))"

section \<open>Account numbers\<close>

text \<open>\<^verbatim>\<open>str\<close> of a Python integer: decimal digits, with a minus sign when negative.\<close>

definition digit_char :: "nat \<Rightarrow> char" where
  "digit_char d = char_of (48 + d)"

fun str_nat :: "nat \<Rightarrow> string" where
  "str_nat n = (if n < 10 then [digit_char n] else str_nat (n div 10) @ [digit_char (n mod 10)])"

declare str_nat.simps [simp del]

definition str_int :: "int \<Rightarrow> string" where
  "str_int i = (if i < 0 then CHR ''-'' # str_nat (nat (- i)) else str_nat (nat i))"

text \<open>The value of a digit string, used to show that \<open>str_int\<close> is injective.\<close>

definition digits_value :: "string \<Rightarrow> nat" where
  "digits_value cs = foldl (\<lambda>a c. 10 * a + (of_char c - 48)) 0 cs"

lemma digits_value_snoc: "digits_value (cs @ [c]) = 10 * digits_value cs + (of_char c - 48)"
  by (simp add: digits_value_def)

lemma of_char_digit_char: "d < 10 \<Longrightarrow> of_char (digit_char d) = (48 + d :: nat)"
  by (simp add: digit_char_def)

lemma digits_value_str_nat: "digits_value (str_nat n) = n"
proof (induction n rule: str_nat.induct)
  case (1 n)
  show ?case
  proof (cases "n < 10")
    case True
    then show ?thesis
      by (subst str_nat.simps) (simp add: digits_value_def of_char_digit_char)
  next
    case False
    with 1 show ?thesis
      by (subst str_nat.simps) (simp add: digits_value_snoc of_char_digit_char)
  qed
qed

lemma digit_char_not_minus: "d < 10 \<Longrightarrow> digit_char d \<noteq> CHR ''-''"
proof
  assume d: "d < 10" and e: "digit_char d = CHR ''-''"
  from e have "(of_char (digit_char d) :: nat) = of_char CHR ''-''" by simp
  with d show False by (simp add: of_char_digit_char)
qed

lemma str_nat_no_minus: "CHR ''-'' \<notin> set (str_nat n)"
proof (induction n rule: str_nat.induct)
  case (1 n)
  show ?case
  proof (cases "n < 10")
    case True
    then show ?thesis
      using digit_char_not_minus [of n] by (subst str_nat.simps) auto
  next
    case False
    with 1 show ?thesis
      using digit_char_not_minus [of "n mod 10"] by (subst str_nat.simps) auto
  qed
qed

lemma str_nat_inj: "str_nat m = str_nat n \<Longrightarrow> m = n"
  by (metis digits_value_str_nat)

lemma str_int_inj: "str_int i = str_int j \<Longrightarrow> i = j"
proof -
  assume e: "str_int i = str_int j"
  have neg: "k < 0 \<Longrightarrow> hd (str_int k) = CHR ''-''" for k
    by (simp add: str_int_def)
  have pos: "\<not> k < 0 \<Longrightarrow> hd (str_int k) \<noteq> CHR ''-''" for k
  proof -
    assume "\<not> k < 0"
    then have k: "str_int k = str_nat (nat k)" by (simp add: str_int_def)
    have "str_nat (nat k) \<noteq> []" by (subst str_nat.simps) simp
    then have "hd (str_nat (nat k)) \<in> set (str_nat (nat k))" by simp
    with str_nat_no_minus [of "nat k"] k show ?thesis by metis
  qed
  show "i = j"
  proof (cases "i < 0")
    case True
    with e neg pos have j: "j < 0" by metis
    from True j e have "str_nat (nat (- i)) = str_nat (nat (- j))"
      by (simp add: str_int_def)
    then have "nat (- i) = nat (- j)" by (rule str_nat_inj)
    with True j show ?thesis by simp
  next
    case False
    with e neg pos have j: "\<not> j < 0" by metis
    from False j e have "str_nat (nat i) = str_nat (nat j)"
      by (simp add: str_int_def)
    then have "nat i = nat j" by (rule str_nat_inj)
    with False j show ?thesis by simp
  qed
qed

lemma finite_numbered_keys: "finite {k. str_int k \<in> set ks}"
proof -
  have "inj str_int" by (rule injI) (rule str_int_inj)
  then have "finite (str_int -` set ks)" by (intro finite_vimageI) simp_all
  then show ?thesis by (simp add: vimage_def)
qed

text \<open>
  The \<^verbatim>\<open>while\<close> loop of \<^verbatim>\<open>generate_account_number\<close> over the keys of the accounts
  table. It ends because the table has finitely many keys and \<open>str_int\<close> is injective.
\<close>

function next_free :: "string list \<Rightarrow> int \<Rightarrow> int" where
  "next_free ks n = (if str_int n \<in> set ks then next_free ks (n + 1) else n)"
  by pat_completeness auto
termination
proof (relation "measure (\<lambda>(ks, n). card {k. n \<le> k \<and> str_int k \<in> set ks})")
  show "wf (measure (\<lambda>(ks, n). card {k. n \<le> k \<and> str_int k \<in> set ks}))" by simp
next
  fix ks :: "string list" and n :: int
  assume used: "str_int n \<in> set ks"
  have fin: "finite {k. n \<le> k \<and> str_int k \<in> set ks}"
    by (rule finite_subset [OF _ finite_numbered_keys [of ks]]) auto
  have inside: "n \<in> {k. n \<le> k \<and> str_int k \<in> set ks}"
    using used by simp
  have outside: "n \<notin> {k. n + 1 \<le> k \<and> str_int k \<in> set ks}"
    by simp
  have "{k. n + 1 \<le> k \<and> str_int k \<in> set ks} \<subseteq> {k. n \<le> k \<and> str_int k \<in> set ks}"
    by auto
  with inside outside
  have "{k. n + 1 \<le> k \<and> str_int k \<in> set ks} \<subset> {k. n \<le> k \<and> str_int k \<in> set ks}"
    by blast
  then have "card {k. n + 1 \<le> k \<and> str_int k \<in> set ks} < card {k. n \<le> k \<and> str_int k \<in> set ks}"
    by (rule psubset_card_mono [OF fin])
  then show "((ks, n + 1), (ks, n)) \<in> measure (\<lambda>(ks, n). card {k. n \<le> k \<and> str_int k \<in> set ks})"
    by simp
qed

declare next_free.simps [simp del]

definition generate_account_number :: "'a bank \<Rightarrow> string \<times> 'a bank" where
  "generate_account_number s =
     (let n = next_free (map fst (accounts s)) (next_account_number s)
      in (str_int n, s\<lparr>next_account_number := n + 1\<rparr>))"

section \<open>Opening an account\<close>

definition MIN_INITIAL_DEPOSIT :: "'a::zero" where
  "MIN_INITIAL_DEPOSIT = 0"

text \<open>
  The loop of \<^verbatim>\<open>create_customer_bank_account\<close> over the initial-deposit prompt: an
  empty line means 0.0 when the minimum is 0.0 (otherwise \<^verbatim>\<open>float("")\<close> raises and the
  loop asks again); an amount below the minimum is asked again.
\<close>

fun read_initial_deposit :: "'a::{zero,ord} entry list \<Rightarrow> 'a py" where
  "read_initial_deposit [] = Raise EOFError"
| "read_initial_deposit (Blank # es) =
     (if (MIN_INITIAL_DEPOSIT :: 'a) = 0 then Return 0 else read_initial_deposit es)"
| "read_initial_deposit (Invalid # es) = read_initial_deposit es"
| "read_initial_deposit (Amount d # es) =
     (if d < MIN_INITIAL_DEPOSIT then read_initial_deposit es else Return d)"

text \<open>
  \<^verbatim>\<open>create_customer_bank_account\<close>: \<open>ts1\<close> is the timestamp stored as \<^verbatim>\<open>created_at\<close>,
  \<open>ts2\<close> the one of the \<^verbatim>\<open>Initial Deposit\<close> transaction.
\<close>

definition create_customer_bank_account ::
  "string \<Rightarrow> string \<Rightarrow> 'a::{zero,ord} bank \<Rightarrow> string \<Rightarrow> 'a entry list \<Rightarrow> 'a outcome \<times> 'a bank" where
  "create_customer_bank_account ts1 ts2 s customer_nic entries =
     (case map_of (users s) customer_nic of
        None \<Rightarrow> (InvalidCustomerProfile, s)
      | Some customer_data \<Rightarrow>
          if role customer_data \<noteq> ''customer'' then (InvalidCustomerProfile, s)
          else
            (case read_initial_deposit entries of
               Raise e \<Rightarrow> (Raised e, s)
             | Return initial_deposit \<Rightarrow>
                 (let (acc_num, s1) = generate_account_number s;
                      accs1 = AList.update acc_num
                                \<lparr>owner_nic = customer_nic, balance = initial_deposit,
                                 transactions = [], created_at = ts1\<rparr>
                                (accounts s1);
                      accs2 = (if 0 < initial_deposit
                               then record_transaction ts2 acc_num ''Initial Deposit''
                                      initial_deposit [] accs1
                               else accs1);
                      owned = (case owned_accounts customer_data of None \<Rightarrow> [] | Some l \<Rightarrow> l)
                  in (Succeeded,
                      s1\<lparr>accounts := accs2,
                         users := AList.update customer_nic
                                    (customer_data\<lparr>owned_accounts := Some (owned @ [acc_num])\<rparr>)
                                    (users s1)\<rparr>))))"

section \<open>Interest\<close>

text \<open>
  The \<^verbatim>\<open>for\<close> loop of \<^verbatim>\<open>apply_interest_to_all_accounts\<close>. It walks the keys of the
  table in order; \<^verbatim>\<open>account_data\<close> is the dictionary stored under the key, so the model
  looks the key up in the table as it is at that moment. \<open>round2\<close> is \<^verbatim>\<open>round(x, 2)\<close>,
  \<open>rate\<close> the value of \<^verbatim>\<open>INTEREST_RATE\<close>, and \<open>stamp k\<close> the timestamp read while
  account \<open>k\<close> is credited. The loop carries \<^verbatim>\<open>applied_count\<close> and
  \<^verbatim>\<open>total_interest_applied\<close>.
\<close>

fun interest_loop ::
  "('a \<Rightarrow> 'a) \<Rightarrow> 'a::{zero,ord,plus,times} \<Rightarrow> (string \<Rightarrow> string) \<Rightarrow> string list \<Rightarrow>
   (string \<times> 'a account) list \<Rightarrow> nat \<Rightarrow> 'a \<Rightarrow> (string \<times> 'a account) list \<times> nat \<times> 'a" where
  "interest_loop round2 rate stamp [] accs applied_count total_interest = (accs, applied_count, total_interest)"
| "interest_loop round2 rate stamp (acc_num # ks) accs applied_count total_interest =
     (case map_of accs acc_num of
        None \<Rightarrow> interest_loop round2 rate stamp ks accs applied_count total_interest
      | Some account_data \<Rightarrow>
          if 0 < balance account_data then
            (let interest_earned = round2 (balance account_data * rate) in
             if 0 < interest_earned then
               interest_loop round2 rate stamp ks
                 (record_transaction (stamp acc_num) acc_num ''Interest Applied'' interest_earned
                    [(''rate'', DNum rate)]
                    (AList.update acc_num
                       (account_data\<lparr>balance := balance account_data + interest_earned\<rparr>) accs))
                 (applied_count + 1) (total_interest + interest_earned)
             else interest_loop round2 rate stamp ks accs applied_count total_interest)
          else interest_loop round2 rate stamp ks accs applied_count total_interest)"

definition apply_interest_to_all_accounts ::
  "('a \<Rightarrow> 'a) \<Rightarrow> 'a::{zero,ord,plus,times} \<Rightarrow> (string \<Rightarrow> string) \<Rightarrow> 'a bank \<Rightarrow>
   'a outcome \<times> 'a bank" where
  "apply_interest_to_all_accounts round2 rate stamp s =
     (if accounts s = [] then (NoAccountsInSystem, s)
      else
        (let (accs, applied_count, total_interest) =
               interest_loop round2 rate stamp (map fst (accounts s)) (accounts s) 0 0
         in if 0 < applied_count
            then (InterestApplied applied_count total_interest, s\<lparr>accounts := accs\<rparr>)
            else (NoInterestApplied, s\<lparr>accounts := accs\<rparr>)))"

section \<open>Data persistence: the record codec\<close>

text \<open>
  Strings are lists of characters, a character standing for one code point below 256.
  \<^verbatim>\<open>str.strip()\<close> removes leading and trailing whitespace, the characters on which
  \<^verbatim>\<open>str.isspace\<close> is true: tab to carriage return, the four separators 28 to 31, the
  space, and the code points 133 and 160.
\<close>

definition is_space :: "char \<Rightarrow> bool" where
  "is_space c = (of_char c \<in> {9, 10, 11, 12, 13, 28, 29, 30, 31, 32, 133, 160 :: nat})"

definition py_strip :: "string \<Rightarrow> string" where
  "py_strip s = rev (dropWhile is_space (rev (dropWhile is_space s)))"

definition starts_with :: "string \<Rightarrow> string \<Rightarrow> bool" where
  "starts_with sep s = (take (length sep) s = sep)"

text \<open>
  \<^verbatim>\<open>s.split(sep)\<close> for a separator that is not empty (both delimiters of the program are
  constants): the text is scanned from the left, \<open>cur\<close> collects the field being read,
  and at each occurrence of the separator the field is closed and the scan goes on behind
  the separator.
\<close>

fun split_from :: "string \<Rightarrow> string \<Rightarrow> string \<Rightarrow> string list" where
  "split_from sep cur [] = [cur]"
| "split_from sep cur (c # cs) =
     (if sep \<noteq> [] \<and> starts_with sep (c # cs)
      then cur # split_from sep [] (drop (length sep) (c # cs))
      else split_from sep (cur @ [c]) cs)"

definition py_split :: "string \<Rightarrow> string \<Rightarrow> string list" where
  "py_split sep s = split_from sep [] s"

fun py_join :: "string \<Rightarrow> string list \<Rightarrow> string" where
  "py_join sep [] = []"
| "py_join sep [x] = x"
| "py_join sep (x # y # ys) = x @ sep @ py_join sep (y # ys)"

text \<open>\<^verbatim>\<open>sep in s\<close>: the separator occurs somewhere in the string.\<close>

fun occurs :: "string \<Rightarrow> string \<Rightarrow> bool" where
  "occurs sep [] = (sep = [])"
| "occurs sep (c # cs) = (starts_with sep (c # cs) \<or> occurs sep cs)"

definition DATA_DELIMITER :: string where
  "DATA_DELIMITER = ''|~|''"

definition LIST_DELIMITER :: string where
  "LIST_DELIMITER = '';''"

text \<open>
  \<^verbatim>\<open>_serialize_user(nic, user_data)\<close> and \<^verbatim>\<open>_deserialize_user(line)\<close>. The pair
  \<^verbatim>\<open>(None, None)\<close> that the decoder returns for a malformed line is \<open>None\<close>.
\<close>

definition serialize_user :: "string \<Rightarrow> user \<Rightarrow> string" where
  "serialize_user nic user_data =
     (let owned_accounts_list =
            (if role user_data = ''customer''
             then (case owned_accounts user_data of None \<Rightarrow> [] | Some l \<Rightarrow> l) else []);
          owned_accounts_str = py_join LIST_DELIMITER owned_accounts_list
      in py_join DATA_DELIMITER
           [nic, name user_data, address user_data, dob user_data, password_hash user_data,
            role user_data, owned_accounts_str])"

definition deserialize_user :: "string \<Rightarrow> (string \<times> user) option" where
  "deserialize_user line =
     (let parts = py_split DATA_DELIMITER (py_strip line) in
      if length parts \<noteq> 7 then None
      else
        (let nic = parts ! 0; role_part = parts ! 5; owned_accounts_part = parts ! 6;
             user_data = \<lparr>name = parts ! 1, address = parts ! 2, dob = parts ! 3,
                          password_hash = parts ! 4, role = role_part, owned_accounts = None\<rparr>
         in if role_part = ''customer''
            then Some (nic, user_data\<lparr>owned_accounts :=
                         Some (filter (\<lambda>acc. acc \<noteq> [])
                                 (py_split LIST_DELIMITER owned_accounts_part))\<rparr>)
            else if role_part = ''admin'' then Some (nic, user_data)
            else None))"

text \<open>
  The account codec calls four library functions, which are parameters here:
  \<open>float_str\<close> is \<^verbatim>\<open>str(float(x))\<close>, \<open>float_parse\<close> is \<^verbatim>\<open>float(s)\<close> with \<open>None\<close> for
  \<^verbatim>\<open>ValueError\<close>, \<open>json_dumps\<close> is \<^verbatim>\<open>json.dumps\<close> on a transaction list, and
  \<open>json_loads\<close> is \<^verbatim>\<open>json.loads\<close>. Its result is a list, a value that is not a list, the
  exception \<^verbatim>\<open>json.JSONDecodeError\<close>, or another exception: \<^verbatim>\<open>json.loads\<close> raises
  \<^verbatim>\<open>RecursionError\<close> on a text nested too deeply and a plain \<^verbatim>\<open>ValueError\<close> on an
  integer of more than 4300 digits. \<^verbatim>\<open>_deserialize_account\<close> catches
  \<^verbatim>\<open>json.JSONDecodeError\<close> only, so the other exceptions leave the function.
\<close>

datatype 'a json_result =
  ParsedList "'a transaction list" | ParsedOther | JSONDecodeError | LoadsRaises exn

definition serialize_account ::
  "('a \<Rightarrow> string) \<Rightarrow> ('a transaction list \<Rightarrow> string) \<Rightarrow> string \<Rightarrow> 'a account \<Rightarrow> string" where
  "serialize_account float_str json_dumps acc_num acc_data =
     (let transactions_json_str = json_dumps (transactions acc_data)
      in py_join DATA_DELIMITER
           [acc_num, owner_nic acc_data, float_str (balance acc_data), created_at acc_data,
            transactions_json_str])"

definition deserialize_account ::
  "(string \<Rightarrow> 'a::zero option) \<Rightarrow> (string \<Rightarrow> 'a json_result) \<Rightarrow> string \<Rightarrow>
   (string \<times> 'a account) option py" where
  "deserialize_account float_parse json_loads line =
     (let parts = py_split DATA_DELIMITER (py_strip line) in
      if length parts \<noteq> 5 then Return None
      else
        (let acc_num = parts ! 0; balance_str = parts ! 2; transactions_json_str = parts ! 4;
             bal = (case float_parse balance_str of None \<Rightarrow> 0 | Some b \<Rightarrow> b)
         in case json_loads transactions_json_str of
              LoadsRaises e \<Rightarrow> Raise e
            | loaded \<Rightarrow>
                (let transactions_list =
                       (case loaded of ParsedList l \<Rightarrow> l | _ \<Rightarrow> [])
                 in Return (Some (acc_num,
                      \<lparr>owner_nic = parts ! 1, balance = bal,
                       transactions = transactions_list, created_at = parts ! 3\<rparr>)))))"

section \<open>Sessions\<close>

text \<open>
  \<^verbatim>\<open>run_customer_session\<close> and \<^verbatim>\<open>run_admin_session\<close> call the operations one after
  another on the same tables. A menu choice is recorded with everything the operation
  reads while it runs (timestamps and console entries).
\<close>

datatype 'a menu_choice =
    CreateAccount string string string "'a entry list"
  | DepositFunds string string "int option list" "'a entry list"
  | WithdrawFunds string string "int option list" "'a entry list"
  | TransferFunds string string string "int option list" "string list" "'a entry list"
  | ApplyInterest "string \<Rightarrow> string"

fun perform ::
  "('a \<Rightarrow> 'a) \<Rightarrow> 'a::{zero,ord,plus,minus,times} \<Rightarrow> 'a bank \<Rightarrow> 'a menu_choice \<Rightarrow>
   'a outcome \<times> 'a bank" where
  "perform round2 rate s (CreateAccount ts1 ts2 nic entries) =
     create_customer_bank_account ts1 ts2 s nic entries"
| "perform round2 rate s (DepositFunds ts nic choices entries) =
     make_deposit ts s nic choices entries"
| "perform round2 rate s (WithdrawFunds ts nic choices entries) =
     make_withdrawal ts s nic choices entries"
| "perform round2 rate s (TransferFunds ts1 ts2 nic choices dests entries) =
     transfer_funds ts1 ts2 s nic choices dests entries"
| "perform round2 rate s (ApplyInterest stamp) =
     apply_interest_to_all_accounts round2 rate stamp s"

fun session ::
  "('a \<Rightarrow> 'a) \<Rightarrow> 'a::{zero,ord,plus,minus,times} \<Rightarrow> 'a bank \<Rightarrow> 'a menu_choice list \<Rightarrow> 'a bank" where
  "session round2 rate s [] = s"
| "session round2 rate s (c # cs) = session round2 rate (snd (perform round2 rate s c)) cs"

section \<open>Properties of the ledger, as the specification words them\<close>

text \<open>
  The signed amount of a recorded transaction: \<^verbatim>\<open>Withdrawal\<close> and \<^verbatim>\<open>Transfer Sent\<close>
  count as negative, every other type as positive.
\<close>

definition signed_amount :: "'a::uminus transaction \<Rightarrow> 'a" where
  "signed_amount t =
     (if trans_type t = ''Withdrawal'' \<or> trans_type t = ''Transfer Sent''
      then - amount t else amount t)"

text \<open>
  The signed sum of the amounts of a list of transactions, added up from 0.
\<close>

definition signed_total :: "'a::{zero,plus,uminus} transaction list \<Rightarrow> 'a" where
  "signed_total txs = foldr (\<lambda>t acc. signed_amount t + acc) txs 0"

text \<open>
  What one recorded transaction does to a balance, with the program's own addition and
  subtraction: \<^verbatim>\<open>Withdrawal\<close> and \<^verbatim>\<open>Transfer Sent\<close> subtract the amount, every other type
  adds it.
\<close>

definition apply_transaction :: "'a::{plus,minus} \<Rightarrow> 'a transaction \<Rightarrow> 'a" where
  "apply_transaction b t =
     (if trans_type t = ''Withdrawal'' \<or> trans_type t = ''Transfer Sent''
      then b - amount t else b + amount t)"

text \<open>
  \<open>replays a0 a\<close>: account \<open>a\<close> has the transactions of \<open>a0\<close> followed by later ones, and
  its balance is the balance of \<open>a0\<close> with the later transactions applied one after the
  other, in the order in which they were recorded.
\<close>

definition replays :: "'a::{plus,minus} account \<Rightarrow> 'a account \<Rightarrow> bool" where
  "replays a0 a =
     (take (length (transactions a0)) (transactions a) = transactions a0 \<and>
      balance a =
        foldl apply_transaction (balance a0) (drop (length (transactions a0)) (transactions a)))"

text \<open>
  \<open>just_opened a\<close>: account \<open>a\<close> is as \<^verbatim>\<open>create_customer_bank_account\<close> leaves a new
  account. Its balance is the initial deposit, which is 0 or not below 0, and it has one
  \<^verbatim>\<open>Initial Deposit\<close> transaction of that amount when the deposit is \<open>> 0\<close> and no
  transaction otherwise.
\<close>

definition just_opened :: "'a::{zero,ord} account \<Rightarrow> bool" where
  "just_opened a =
     ((balance a = 0 \<or> \<not> balance a < 0) \<and>
      (case transactions a of
         [] \<Rightarrow> \<not> 0 < balance a
       | [t] \<Rightarrow> 0 < balance a \<and> trans_type t = ''Initial Deposit'' \<and> amount t = balance a \<and>
                details t = []
       | _ \<Rightarrow> False))"

text \<open>
  The specification's \<^verbatim>\<open>InsufficientFunds\<close>: the operation is turned away for lack of
  funds. The code has two messages for it, "insufficient funds" and, on an account whose
  balance is 0, "no funds to withdraw".
\<close>

definition refused_for_lack_of_funds :: "'a outcome \<Rightarrow> bool" where
  "refused_for_lack_of_funds out = (out = InsufficientFunds \<or> out = NoFundsToWithdraw)"

definition balances_nonneg :: "'a::{zero,ord} bank \<Rightarrow> bool" where
  "balances_nonneg s = list_all (\<lambda>p. 0 \<le> balance (snd p)) (accounts s)"

text \<open>
  \<open>only_account_changed n s s'\<close>: between \<open>s\<close> and \<open>s'\<close> the users table, the counter,
  the keys of the accounts table and every entry under a key other than \<open>n\<close> are the
  same, and the entry under \<open>n\<close> keeps its owner and its creation time.
\<close>

definition only_account_changed :: "string \<Rightarrow> 'a bank \<Rightarrow> 'a bank \<Rightarrow> bool" where
  "only_account_changed n s s' =
     (users s' = users s \<and>
      next_account_number s' = next_account_number s \<and>
      map fst (accounts s') = map fst (accounts s) \<and>
      filter (\<lambda>p. fst p \<noteq> n) (accounts s') = filter (\<lambda>p. fst p \<noteq> n) (accounts s) \<and>
      map_option owner_nic (map_of (accounts s') n) = map_option owner_nic (map_of (accounts s) n) \<and>
      map_option created_at (map_of (accounts s') n) = map_option created_at (map_of (accounts s) n))"

text \<open>
  Records that the codec can carry. A field is safe when the field delimiter does not
  occur in it and it does not end with the first two characters of the delimiter (they
  would join up with the delimiter that follows). A user is carried faithfully when the
  five free fields are safe, the NIC does not start with whitespace, and either the role is
  \<^verbatim>\<open>customer\<close> with a list of account numbers that are not empty, hold no \<^verbatim>\<open>;\<close>, hold no
  field delimiter and do not end the line with whitespace, or the role is \<^verbatim>\<open>admin\<close> with
  no list. An account is carried faithfully when its four leading fields are safe, the
  account number does not start with whitespace, the JSON text of the transactions holds
  no field delimiter and does not end with whitespace, and the library functions invert
  each other on its balance and its transactions.
\<close>

definition field_safe :: "string \<Rightarrow> bool" where
  "field_safe f = (\<not> occurs DATA_DELIMITER (f @ butlast DATA_DELIMITER))"

definition token_safe :: "string \<Rightarrow> bool" where
  "token_safe t = (t \<noteq> [] \<and> \<not> occurs LIST_DELIMITER t)"

definition codec_safe_user :: "string \<Rightarrow> user \<Rightarrow> bool" where
  "codec_safe_user nic u =
     (list_all field_safe [nic, name u, address u, dob u, password_hash u] \<and>
      (nic = [] \<or> \<not> is_space (hd nic)) \<and>
      (if role u = ''customer''
       then (case owned_accounts u of
               None \<Rightarrow> False
             | Some toks \<Rightarrow>
                 list_all token_safe toks \<and>
                 \<not> occurs DATA_DELIMITER (py_join LIST_DELIMITER toks) \<and>
                 (toks = [] \<or> \<not> is_space (last (last toks))))
       else role u = ''admin'' \<and> owned_accounts u = None))"

definition codec_safe_account ::
  "('a \<Rightarrow> string) \<Rightarrow> (string \<Rightarrow> 'a option) \<Rightarrow> ('a transaction list \<Rightarrow> string) \<Rightarrow>
   (string \<Rightarrow> 'a json_result) \<Rightarrow> string \<Rightarrow> 'a account \<Rightarrow> bool" where
  "codec_safe_account float_str float_parse json_dumps json_loads acc_num a =
     (list_all field_safe [acc_num, owner_nic a, float_str (balance a), created_at a] \<and>
      (acc_num = [] \<or> \<not> is_space (hd acc_num)) \<and>
      \<not> occurs DATA_DELIMITER (json_dumps (transactions a)) \<and>
      (json_dumps (transactions a) = [] \<or> \<not> is_space (last (json_dumps (transactions a)))) \<and>
      float_parse (float_str (balance a)) = Some (balance a) \<and>
      json_loads (json_dumps (transactions a)) = ParsedList (transactions a))"

text \<open>
  The interest run in the words of the specification: the interest of an account is
  \<^verbatim>\<open>round(balance * rate, 2)\<close>; an account earns it when its balance is \<^verbatim>\<open>> 0\<close> and the
  interest is \<^verbatim>\<open>> 0\<close>; crediting adds the interest to the balance and appends one
  \<^verbatim>\<open>Interest Applied\<close> transaction that carries the rate.
\<close>

definition interest_of :: "('a \<Rightarrow> 'a) \<Rightarrow> 'a::times \<Rightarrow> 'a account \<Rightarrow> 'a" where
  "interest_of round2 rate a = round2 (balance a * rate)"

definition earns_interest :: "('a \<Rightarrow> 'a) \<Rightarrow> 'a::{zero,ord,times} \<Rightarrow> 'a account \<Rightarrow> bool" where
  "earns_interest round2 rate a = (0 < balance a \<and> 0 < interest_of round2 rate a)"

definition credit_interest ::
  "('a \<Rightarrow> 'a) \<Rightarrow> 'a::{plus,times} \<Rightarrow> string \<Rightarrow> 'a account \<Rightarrow> 'a account" where
  "credit_interest round2 rate ts a =
     a\<lparr>balance := balance a + interest_of round2 rate a,
       transactions := transactions a @
         [\<lparr>timestamp = ts, trans_type = ''Interest Applied'',
           amount = interest_of round2 rate a, details = [(''rate'', DNum rate)]\<rparr>]\<rparr>"

definition after_interest ::
  "('a \<Rightarrow> 'a) \<Rightarrow> 'a::{zero,ord,plus,times} \<Rightarrow> (string \<Rightarrow> string) \<Rightarrow> string \<times> 'a account \<Rightarrow>
   string \<times> 'a account" where
  "after_interest round2 rate stamp p =
     (if earns_interest round2 rate (snd p)
      then (fst p, credit_interest round2 rate (stamp (fst p)) (snd p)) else p)"

section \<open>A small arithmetic that rounds\<close>

text \<open>
  The examples that need the two traits of floats that matter to a ledger use a small
  arithmetic of their own: whole numbers, where a result of magnitude 8 or more is cut to
  an even number (as a float keeps only so many digits) and a result of magnitude 1000 or
  more is an infinity, together with the two infinities and not-a-number. A comparison with
  not-a-number is false, and the difference of two equal infinities is not-a-number.
\<close>

datatype toy_float = Finite int | PosInf | NegInf | NaN

definition toy_round :: "int \<Rightarrow> toy_float" where
  "toy_round x =
     (if 1000 \<le> x then PosInf
      else if x \<le> - 1000 then NegInf
      else if 8 \<le> \<bar>x\<bar> then Finite (sgn x * (2 * (\<bar>x\<bar> div 2)))
      else Finite x)"

fun toy_neg :: "toy_float \<Rightarrow> toy_float" where
  "toy_neg (Finite x) = Finite (- x)"
| "toy_neg PosInf = NegInf"
| "toy_neg NegInf = PosInf"
| "toy_neg NaN = NaN"

fun toy_add :: "toy_float \<Rightarrow> toy_float \<Rightarrow> toy_float" where
  "toy_add NaN y = NaN"
| "toy_add x NaN = NaN"
| "toy_add (Finite x) (Finite y) = toy_round (x + y)"
| "toy_add PosInf NegInf = NaN"
| "toy_add NegInf PosInf = NaN"
| "toy_add PosInf y = PosInf"
| "toy_add x PosInf = PosInf"
| "toy_add NegInf y = NegInf"
| "toy_add x NegInf = NegInf"

fun toy_sign :: "toy_float \<Rightarrow> int" where
  "toy_sign (Finite x) = sgn x"
| "toy_sign PosInf = 1"
| "toy_sign NegInf = - 1"
| "toy_sign NaN = 0"

fun toy_mul :: "toy_float \<Rightarrow> toy_float \<Rightarrow> toy_float" where
  "toy_mul NaN y = NaN"
| "toy_mul x NaN = NaN"
| "toy_mul (Finite x) (Finite y) = toy_round (x * y)"
| "toy_mul x y =
     (if toy_sign x * toy_sign y = 0 then NaN
      else if 0 < toy_sign x * toy_sign y then PosInf else NegInf)"

fun toy_less :: "toy_float \<Rightarrow> toy_float \<Rightarrow> bool" where
  "toy_less NaN y = False"
| "toy_less x NaN = False"
| "toy_less (Finite x) (Finite y) = (x < y)"
| "toy_less x NegInf = False"
| "toy_less NegInf y = True"
| "toy_less PosInf y = False"
| "toy_less x PosInf = True"

instantiation toy_float :: "{zero, plus, minus, uminus, times, ord}"
begin

definition zero_toy_float :: toy_float where
  "zero_toy_float = Finite 0"

definition plus_toy_float :: "toy_float \<Rightarrow> toy_float \<Rightarrow> toy_float" where
  "plus_toy_float x y = toy_add x y"

definition uminus_toy_float :: "toy_float \<Rightarrow> toy_float" where
  "uminus_toy_float x = toy_neg x"

definition minus_toy_float :: "toy_float \<Rightarrow> toy_float \<Rightarrow> toy_float" where
  "minus_toy_float x y = toy_add x (toy_neg y)"

definition times_toy_float :: "toy_float \<Rightarrow> toy_float \<Rightarrow> toy_float" where
  "times_toy_float x y = toy_mul x y"

definition less_toy_float :: "toy_float \<Rightarrow> toy_float \<Rightarrow> bool" where
  "less_toy_float x y = toy_less x y"

definition less_eq_toy_float :: "toy_float \<Rightarrow> toy_float \<Rightarrow> bool" where
  "less_eq_toy_float x y = (toy_less x y \<or> (x = y \<and> x \<noteq> NaN))"

instance ..

end

section \<open>A small bank for the examples\<close>

definition account_1001 :: "int account" where
  "account_1001 =
     \<lparr>owner_nic = ''X'', balance = 100,
      transactions =
        [\<lparr>timestamp = ''2024-01-01 10:00:00'', trans_type = ''Initial Deposit'', amount = 100,
          details = []\<rparr>],
      created_at = ''2024-01-01 10:00:00''\<rparr>"

definition account_1002 :: "int account" where
  "account_1002 =
     \<lparr>owner_nic = ''Y'', balance = 0, transactions = [], created_at = ''2024-01-02 09:30:00''\<rparr>"

definition customer_X :: user where
  "customer_X =
     \<lparr>name = ''Xena Doe'', address = ''1 Main St'', dob = ''1990-05-15'',
      password_hash = ''5e884898'', role = ''customer'', owned_accounts = Some [''1001'']\<rparr>"

definition customer_Y :: user where
  "customer_Y =
     \<lparr>name = ''Yuri Roe'', address = ''2 Side St'', dob = ''1985-11-30'',
      password_hash = ''8d969eef'', role = ''customer'', owned_accounts = Some [''1002'']\<rparr>"

definition small_bank :: "int bank" where
  "small_bank =
     \<lparr>users = [(''X'', customer_X), (''Y'', customer_Y)],
      accounts = [(''1001'', account_1001), (''1002'', account_1002)],
      next_account_number = 1003\<rparr>"

text \<open>
  The bank of the specification's interest example, in exact arithmetic: balances 0, -5
  and 1000, rate 0.015. \<open>round2_exact\<close> rounds an exact rational to the nearest
  hundredth, ties to the even neighbour.
\<close>

definition round2_exact :: "rat \<Rightarrow> rat" where
  "round2_exact x =
     (let y = x * 100; f = \<lfloor>y\<rfloor>; d = y - of_int f
      in of_int (if d < 1 / 2 then f else if 1 / 2 < d then f + 1
                 else if even f then f else f + 1) / 100)"

definition interest_bank :: "rat bank" where
  "interest_bank =
     \<lparr>users = [],
      accounts =
        [(''1001'', \<lparr>owner_nic = ''X'', balance = 0, transactions = [], created_at = ''c1''\<rparr>),
         (''1002'', \<lparr>owner_nic = ''Y'', balance = - 5, transactions = [], created_at = ''c2''\<rparr>),
         (''1003'', \<lparr>owner_nic = ''Y'', balance = 1000, transactions = [], created_at = ''c3''\<rparr>)],
      next_account_number = 1004\<rparr>"

text \<open>
  Finite tables that stand for \<^verbatim>\<open>str(float(x))\<close>, \<^verbatim>\<open>float\<close>, \<^verbatim>\<open>json.dumps\<close> and
  \<^verbatim>\<open>json.loads\<close> in the examples, and some lines of the two data files. Like
  \<^verbatim>\<open>json.loads\<close>, \<open>demo_json_loads\<close> raises \<^verbatim>\<open>ValueError\<close> on an integer of more than
  4300 digits.
\<close>

definition demo_json_text :: string where
  \<open>demo_json_text =
     ''[{"timestamp": "2024-01-01 10:00:00", "type": "Initial Deposit", "amount": 100.0}]''\<close>

definition demo_float_str :: "int \<Rightarrow> string" where
  "demo_float_str x = str_int x @ ''.0''"

definition demo_float_parse :: "string \<Rightarrow> int option" where
  "demo_float_parse s = map_of [(''100.0'', 100), (''70.0'', 70), (''0.0'', 0)] s"

definition demo_json_dumps :: "int transaction list \<Rightarrow> string" where
  "demo_json_dumps txs =
     (if txs = [] then ''[]''
      else if txs = transactions account_1001 then demo_json_text else ''null'')"

definition is_digit :: "char \<Rightarrow> bool" where
  "is_digit c = (48 \<le> (of_char c :: nat) \<and> (of_char c :: nat) \<le> 57)"

definition demo_json_loads :: "string \<Rightarrow> int json_result" where
  "demo_json_loads s =
     (if 4300 < length s \<and> list_all is_digit s then LoadsRaises ValueError
      else if s = ''[]'' then ParsedList []
      else if s = demo_json_text then ParsedList (transactions account_1001)
      else if s = ''{}'' \<or> s = ''null'' then ParsedOther
      else JSONDecodeError)"

definition admin_A :: user where
  "admin_A =
     \<lparr>name = ''Ada Poe'', address = ''3 High St'', dob = ''1979-02-28'',
      password_hash = ''ef92b778'', role = ''admin'', owned_accounts = None\<rparr>"

text \<open>A bank in the small arithmetic: customer X holds account 1001 with a balance of 12.\<close>

definition toy_bank :: "toy_float bank" where
  "toy_bank =
     \<lparr>users = [(''X'', customer_X)],
      accounts =
        [(''1001'', \<lparr>owner_nic = ''X'', balance = Finite 12, transactions = [],
                     created_at = ''2024-01-01 10:00:00''\<rparr>)],
      next_account_number = 1002\<rparr>"

text \<open>Customer X deposits 1 twice.\<close>

definition two_small_deposits :: "toy_float menu_choice list" where
  "two_small_deposits =
     [DepositFunds ''t1'' ''X'' [] [Amount (Finite 1)],
      DepositFunds ''t2'' ''X'' [] [Amount (Finite 1)]]"

text \<open>Customer X deposits an infinite amount and withdraws it again.\<close>

definition infinite_deposit_and_withdrawal :: "toy_float menu_choice list" where
  "infinite_deposit_and_withdrawal =
     [DepositFunds ''t1'' ''X'' [] [Amount PosInf],
      WithdrawFunds ''t2'' ''X'' [] [Amount PosInf]]"

text \<open>A sequence of menu choices on the small bank.\<close>

definition busy_day :: "int menu_choice list" where
  "busy_day =
     [CreateAccount ''d0'' ''d1'' ''Y'' [Invalid, Amount 25],
      DepositFunds ''d2'' ''X'' [] [Amount 50],
      WithdrawFunds ''d3'' ''X'' [] [Amount 500, Amount 30],
      WithdrawFunds ''d4'' ''X'' [] [Amount 30],
      TransferFunds ''d5'' ''d6'' ''X'' [] [''1002''] [Amount 40],
      ApplyInterest (\<lambda>k. ''d7'')]"

section \<open>Lemmas on the tables\<close>

lemma map_of_record_transaction:
  "map_of (record_transaction ts k ty amt ds accs) k' =
     (case map_of accs k of
        None \<Rightarrow> map_of accs k'
      | Some a \<Rightarrow>
          if k' = k
          then Some (a\<lparr>transactions := transactions a @
                 [\<lparr>timestamp = ts, trans_type = ty, amount = amt, details = ds\<rparr>]\<rparr>)
          else map_of accs k')"
  by (simp add: record_transaction_def update_conv' split: option.split)

lemma filter_update_other:
  "\<not> P k \<Longrightarrow> filter (\<lambda>p. P (fst p)) (AList.update k v al) = filter (\<lambda>p. P (fst p)) al"
  by (induction al) auto

lemma filter_record_transaction_other:
  "\<not> P k \<Longrightarrow>
   filter (\<lambda>p. P (fst p)) (record_transaction ts k ty amt ds accs) = filter (\<lambda>p. P (fst p)) accs"
  by (simp add: record_transaction_def filter_update_other split: option.split)

lemma keys_update_present: "map_of al k = Some a \<Longrightarrow> map fst (AList.update k v al) = map fst al"
  by (induction al) (auto split: if_splits)

lemma keys_record_transaction: "map fst (record_transaction ts k ty amt ds accs) = map fst accs"
  by (auto simp add: record_transaction_def keys_update_present split: option.split)

lemma read_amount_positive: "read_amount es = Return amt \<Longrightarrow> 0 < amt"
  by (induction es rule: read_amount.induct) (auto split: if_splits)

section \<open>Withdrawal\<close>

text \<open>
  Claim C3. A withdrawal on the chosen, existing account \<open>n\<close> with the amount \<open>amt\<close> that
  the amount prompt accepts (so \<open>amt > 0\<close>): if the amount exceeds the balance the
  withdrawal is turned away for lack of funds and the whole state, so the balance and the
  transaction list of the account, is unchanged; otherwise (also when the amount equals
  the balance) the balance goes down by the amount and one \<^verbatim>\<open>Withdrawal\<close> transaction with
  that amount is appended. On a balance of 0 every amount the prompt accepts exceeds the
  balance, and the code turns the withdrawal away before it asks for the amount.
\<close>

theorem withdrawal_cases:
  fixes s :: "'a::{zero,ord,minus} bank"
  assumes "choose_customer_account (users s) nic choices = Return (Some n)"
    and "n \<noteq> []"
    and "map_of (accounts s) n = Some a"
    and "read_amount entries = Return amt"
  shows "0 < amt \<and>
    (case make_withdrawal ts s nic choices entries of (out, s') \<Rightarrow>
      if balance a < amt then refused_for_lack_of_funds out \<and> s' = s
      else out = Succeeded \<and>
           map_of (accounts s') n =
             Some (a\<lparr>balance := balance a - amt,
                     transactions := transactions a @
                       [\<lparr>timestamp = ts, trans_type = ''Withdrawal'', amount = amt, details = []\<rparr>]\<rparr>))"
proof -
  from assms(4) have pos: "0 < amt" by (rule read_amount_positive)
  show ?thesis
  proof (cases "balance a = 0")
    case True
    with pos have "balance a < amt" by simp
    with assms True pos show ?thesis
      by (simp add: make_withdrawal_def refused_for_lack_of_funds_def)
  next
    case False
    with assms pos show ?thesis
      by (simp add: make_withdrawal_def map_of_record_transaction update_conv'
          refused_for_lack_of_funds_def)
  qed
qed

text \<open>
  Customer X withdraws 30 from account 1001, which holds 100; asking for 500 is turned
  away. Customer Y asks to withdraw from account 1002, whose balance is 0: the amount 5
  would exceed it, and the withdrawal is turned away with nothing changed.
\<close>

theorem withdrawal_cases_witness:
  "choose_customer_account (users small_bank) ''X'' [] = Return (Some ''1001'') \<and>
   map_of (accounts small_bank) ''1001'' = Some account_1001 \<and>
   read_amount [Invalid, Amount (- 5), Amount 30] = Return (30 :: int) \<and>
   fst (make_withdrawal ''2024-02-01 12:00:00'' small_bank ''X'' []
          [Invalid, Amount (- 5), Amount 30]) = Succeeded \<and>
   map_of (accounts (snd (make_withdrawal ''2024-02-01 12:00:00'' small_bank ''X'' []
          [Invalid, Amount (- 5), Amount 30]))) ''1001'' =
     Some \<lparr>owner_nic = ''X'', balance = 70,
           transactions =
             [\<lparr>timestamp = ''2024-01-01 10:00:00'', trans_type = ''Initial Deposit'',
               amount = 100, details = []\<rparr>,
              \<lparr>timestamp = ''2024-02-01 12:00:00'', trans_type = ''Withdrawal'',
               amount = 30, details = []\<rparr>],
           created_at = ''2024-01-01 10:00:00''\<rparr> \<and>
   read_amount [Amount 500] = Return (500 :: int) \<and>
   balance account_1001 < 500 \<and>
   make_withdrawal ''2024-02-01 12:00:00'' small_bank ''X'' [] [Amount 500] =
     (InsufficientFunds, small_bank) \<and>
   choose_customer_account (users small_bank) ''Y'' [] = Return (Some ''1002'') \<and>
   map_of (accounts small_bank) ''1002'' = Some account_1002 \<and>
   read_amount [Amount 5] = Return (5 :: int) \<and>
   balance account_1002 < 5 \<and>
   make_withdrawal ''2024-02-01 12:00:00'' small_bank ''Y'' [] [Amount 5] =
     (NoFundsToWithdraw, small_bank) \<and>
   refused_for_lack_of_funds (InsufficientFunds :: int outcome) \<and>
   refused_for_lack_of_funds (NoFundsToWithdraw :: int outcome)"
proof -
  have h1: "choose_customer_account (users small_bank) ''X'' [] = Return (Some ''1001'')"
    by (simp add: choose_customer_account_def small_bank_def customer_X_def)
  have h2: "''1001'' \<noteq> []" by simp
  have h3: "map_of (accounts small_bank) ''1001'' = Some account_1001"
    by (simp add: small_bank_def)
  have h4: "read_amount [Invalid, Amount (- 5), Amount 30] = Return (30 :: int)"
    by simp
  have h5: "read_amount [Amount 500] = Return (500 :: int)" by simp
  have k1: "choose_customer_account (users small_bank) ''Y'' [] = Return (Some ''1002'')"
    by (simp add: choose_customer_account_def small_bank_def customer_Y_def)
  have k2: "''1002'' \<noteq> []" by simp
  have k3: "map_of (accounts small_bank) ''1002'' = Some account_1002"
    by (simp add: small_bank_def)
  have k4: "read_amount [Amount 5] = Return (5 :: int)" by simp
  have x: "make_withdrawal ''2024-02-01 12:00:00'' small_bank ''X'' [] [Amount 500] =
     (InsufficientFunds, small_bank)"
    by (simp add: make_withdrawal_def h1 h3) (simp add: account_1001_def)
  have y: "make_withdrawal ''2024-02-01 12:00:00'' small_bank ''Y'' [] [Amount 5] =
     (NoFundsToWithdraw, small_bank)"
    by (simp add: make_withdrawal_def k1 k3) (simp add: account_1002_def)
  from withdrawal_cases [OF h1 h2 h3 h4, of "''2024-02-01 12:00:00''"]
       withdrawal_cases [OF h1 h2 h3 h5, of "''2024-02-01 12:00:00''"]
       withdrawal_cases [OF k1 k2 k3 k4, of "''2024-02-01 12:00:00''"]
       h1 h3 h4 h5 k1 k3 k4 x y
  show ?thesis
    by (simp add: case_prod_beta account_1001_def account_1002_def refused_for_lack_of_funds_def)
qed

section \<open>Deposits and withdrawals touch one account\<close>

text \<open>
  Claim C10. A deposit or a withdrawal on the chosen account \<open>n\<close> leaves the users table,
  the counter and every other account as they were, and account \<open>n\<close> keeps its owner and
  its creation time.
\<close>

theorem deposit_withdrawal_frame:
  fixes s :: "'a::{zero,ord,plus,minus} bank"
  assumes "choose_customer_account (users s) nic choices = Return (Some n)"
  shows "only_account_changed n s (snd (make_deposit ts s nic choices entries)) \<and>
         only_account_changed n s (snd (make_withdrawal ts s nic choices entries))"
proof
  show "only_account_changed n s (snd (make_deposit ts s nic choices entries))"
    using assms
    by (simp add: make_deposit_def only_account_changed_def keys_record_transaction
        keys_update_present filter_record_transaction_other [where P = "\<lambda>k. k \<noteq> n"]
        filter_update_other [where P = "\<lambda>k. k \<noteq> n"] map_of_record_transaction update_conv'
        split: option.split py.split)
  show "only_account_changed n s (snd (make_withdrawal ts s nic choices entries))"
    using assms
    by (simp add: make_withdrawal_def only_account_changed_def keys_record_transaction
        keys_update_present filter_record_transaction_other [where P = "\<lambda>k. k \<noteq> n"]
        filter_update_other [where P = "\<lambda>k. k \<noteq> n"] map_of_record_transaction update_conv'
        split: option.split py.split)
qed

text \<open>Customer X deposits 50 into account 1001, or withdraws 30 from it.\<close>

theorem deposit_withdrawal_frame_witness:
  "choose_customer_account (users small_bank) ''X'' [] = Return (Some ''1001'') \<and>
   fst (make_deposit ''2024-02-01 12:00:00'' small_bank ''X'' [] [Amount 50]) = Succeeded \<and>
   only_account_changed ''1001'' small_bank
     (snd (make_deposit ''2024-02-01 12:00:00'' small_bank ''X'' [] [Amount 50])) \<and>
   fst (make_withdrawal ''2024-02-01 12:00:00'' small_bank ''X'' [] [Amount 30]) = Succeeded \<and>
   only_account_changed ''1001'' small_bank
     (snd (make_withdrawal ''2024-02-01 12:00:00'' small_bank ''X'' [] [Amount 30])) \<and>
   map_of (accounts (snd (make_deposit ''2024-02-01 12:00:00'' small_bank ''X'' [] [Amount 50])))
     ''1002'' = Some account_1002 \<and>
   map_option balance
     (map_of (accounts (snd (make_deposit ''2024-02-01 12:00:00'' small_bank ''X'' [] [Amount 50])))
        ''1001'') = Some 150"
proof -
  have h1: "choose_customer_account (users small_bank) ''X'' [] = Return (Some ''1001'')"
    by (simp add: choose_customer_account_def small_bank_def customer_X_def)
  have h3: "map_of (accounts small_bank) ''1001'' = Some account_1001"
    by (simp add: small_bank_def)
  have d: "make_deposit ''2024-02-01 12:00:00'' small_bank ''X'' [] [Amount 50] =
      (Succeeded,
       small_bank\<lparr>accounts :=
         record_transaction ''2024-02-01 12:00:00'' ''1001'' ''Deposit'' 50 []
           (AList.update ''1001'' (account_1001\<lparr>balance := balance account_1001 + 50\<rparr>)
              (accounts small_bank))\<rparr>)"
    by (simp add: make_deposit_def h1 h3)
  have w: "fst (make_withdrawal ''2024-02-01 12:00:00'' small_bank ''X'' [] [Amount 30]) = Succeeded"
    by (simp add: make_withdrawal_def h1 h3) (simp add: account_1001_def)
  from deposit_withdrawal_frame [OF h1, of "''2024-02-01 12:00:00''" "[Amount 50]"]
    deposit_withdrawal_frame [OF h1, of "''2024-02-01 12:00:00''" "[Amount 30]"] h1 w
  show ?thesis
    by (simp add: d map_of_record_transaction update_conv') (simp add: small_bank_def account_1001_def)
qed

section \<open>Transfers\<close>

text \<open>
  Claim C2. A transfer from the chosen, existing account \<open>src\<close> to the account number
  \<open>dst\<close> typed at the recipient prompt, with the amount \<open>amt\<close> that the amount prompt
  accepts (so \<open>amt > 0\<close>): it is turned away, with the whole state unchanged, when the
  recipient is empty, when it is the source itself, when no such account exists, or when
  the amount exceeds the source balance. Otherwise the source balance goes down by the
  amount, the destination balance goes up by it, a \<^verbatim>\<open>Transfer Sent\<close> naming \<open>dst\<close> is
  appended to the source and a \<^verbatim>\<open>Transfer Received\<close> naming \<open>src\<close> to the destination,
  and no other account, nor the users table, changes.
\<close>

theorem transfer_cases:
  fixes s :: "'a::{zero,ord,plus,minus} bank"
  assumes "choose_customer_account (users s) nic choices = Return (Some src)"
    and "src \<noteq> []"
    and "map_of (accounts s) src = Some sa"
    and "read_amount entries = Return amt"
  shows "0 < amt \<and>
    (case transfer_funds t_sent t_recv s nic choices (dst # ds) entries of (out, s') \<Rightarrow>
       if dst = [] then out = RecipientEmpty \<and> s' = s
       else if src = dst then out = SameAccount \<and> s' = s
       else
         (case map_of (accounts s) dst of
            None \<Rightarrow> out = RecipientNotFound \<and> s' = s
          | Some da \<Rightarrow>
              if balance sa < amt then out = InsufficientFunds \<and> s' = s
              else
                out = Succeeded \<and>
                map_of (accounts s') src =
                  Some (sa\<lparr>balance := balance sa - amt,
                           transactions := transactions sa @
                             [\<lparr>timestamp = t_sent, trans_type = ''Transfer Sent'', amount = amt,
                               details = [(''to_account'', DStr dst)]\<rparr>]\<rparr>) \<and>
                map_of (accounts s') dst =
                  Some (da\<lparr>balance := balance da + amt,
                           transactions := transactions da @
                             [\<lparr>timestamp = t_recv, trans_type = ''Transfer Received'', amount = amt,
                               details = [(''from_account'', DStr src)]\<rparr>]\<rparr>) \<and>
                filter (\<lambda>p. fst p \<noteq> src \<and> fst p \<noteq> dst) (accounts s') =
                  filter (\<lambda>p. fst p \<noteq> src \<and> fst p \<noteq> dst) (accounts s) \<and>
                map fst (accounts s') = map fst (accounts s) \<and>
                users s' = users s \<and> next_account_number s' = next_account_number s))"
  using assms
  by (simp add: transfer_funds_def read_amount_positive keys_record_transaction
        keys_update_present filter_record_transaction_other [where P = "\<lambda>k. k \<noteq> src \<and> k \<noteq> dst"]
        filter_update_other [where P = "\<lambda>k. k \<noteq> src \<and> k \<noteq> dst"] map_of_record_transaction
        update_conv' split: option.split)

text \<open>
  Customer X sends 40 from account 1001 (balance 100) to account 1002 (balance 0); sending
  to 1001 itself, to the unknown account 4242, or sending 500 is turned away.
\<close>

theorem transfer_cases_witness:
  "choose_customer_account (users small_bank) ''X'' [] = Return (Some ''1001'') \<and>
   map_of (accounts small_bank) ''1001'' = Some account_1001 \<and>
   read_amount [Amount 40] = Return (40 :: int) \<and>
   fst (transfer_funds ''t1'' ''t2'' small_bank ''X'' [] [''1002''] [Amount 40]) = Succeeded \<and>
   map_of (accounts (snd (transfer_funds ''t1'' ''t2'' small_bank ''X'' [] [''1002''] [Amount 40])))
       ''1001'' =
     Some \<lparr>owner_nic = ''X'', balance = 60,
           transactions =
             [\<lparr>timestamp = ''2024-01-01 10:00:00'', trans_type = ''Initial Deposit'',
               amount = 100, details = []\<rparr>,
              \<lparr>timestamp = ''t1'', trans_type = ''Transfer Sent'',
               amount = 40, details = [(''to_account'', DStr ''1002'')]\<rparr>],
           created_at = ''2024-01-01 10:00:00''\<rparr> \<and>
   map_of (accounts (snd (transfer_funds ''t1'' ''t2'' small_bank ''X'' [] [''1002''] [Amount 40])))
       ''1002'' =
     Some \<lparr>owner_nic = ''Y'', balance = 40,
           transactions =
             [\<lparr>timestamp = ''t2'', trans_type = ''Transfer Received'',
               amount = 40, details = [(''from_account'', DStr ''1001'')]\<rparr>],
           created_at = ''2024-01-02 09:30:00''\<rparr> \<and>
   transfer_funds ''t1'' ''t2'' small_bank ''X'' [] [''1001''] [Amount 40] =
     (SameAccount, small_bank) \<and>
   transfer_funds ''t1'' ''t2'' small_bank ''X'' [] [''4242''] [Amount 40] =
     (RecipientNotFound, small_bank) \<and>
   read_amount [Amount 500] = Return (500 :: int) \<and>
   transfer_funds ''t1'' ''t2'' small_bank ''X'' [] [''1002''] [Amount 500] =
     (InsufficientFunds, small_bank)"
proof -
  have h1: "choose_customer_account (users small_bank) ''X'' [] = Return (Some ''1001'')"
    by (simp add: choose_customer_account_def small_bank_def customer_X_def)
  have h2: "''1001'' \<noteq> []" by simp
  have h3: "map_of (accounts small_bank) ''1001'' = Some account_1001"
    by (simp add: small_bank_def)
  have h4: "read_amount [Amount 40] = Return (40 :: int)" by simp
  have h5: "read_amount [Amount 500] = Return (500 :: int)" by simp
  have d: "map_of (accounts small_bank) ''1002'' = Some account_1002"
    "map_of (accounts small_bank) ''4242'' = None"
    by (simp_all add: small_bank_def)
  from transfer_cases [OF h1 h2 h3 h4, where t_sent = "''t1''" and t_recv = "''t2''" and dst = "''1002''" and ds = "[]"]
       transfer_cases [OF h1 h2 h3 h4, where t_sent = "''t1''" and t_recv = "''t2''" and dst = "''1001''" and ds = "[]"]
       transfer_cases [OF h1 h2 h3 h4, where t_sent = "''t1''" and t_recv = "''t2''" and dst = "''4242''" and ds = "[]"]
       transfer_cases [OF h1 h2 h3 h5, where t_sent = "''t1''" and t_recv = "''t2''" and dst = "''1002''" and ds = "[]"]
       h1 h3
  show ?thesis
    by (simp add: case_prod_beta d prod_eq_iff account_1001_def account_1002_def)
qed

section \<open>Allocating account numbers\<close>

lemma next_free_spec: "n \<le> next_free ks n \<and> str_int (next_free ks n) \<notin> set ks"
proof (induction ks n rule: next_free.induct)
  case (1 ks n)
  show ?case
  proof (cases "str_int n \<in> set ks")
    case True
    with 1 show ?thesis by (subst (1 2) next_free.simps) simp
  next
    case False
    then show ?thesis by (subst (1 2) next_free.simps) simp
  qed
qed

text \<open>
  Claim C4. Whatever the accounts table and the counter are, \<^verbatim>\<open>generate_account_number\<close>
  returns: the number it returns is not a key of the accounts table, it is the decimal
  string of the counter's new value minus one (so the new counter is strictly greater than
  the returned number), it is not below the old counter, and the counter does not go
  down. The tables are not touched.
\<close>

theorem generate_account_number_fresh:
  "(case generate_account_number s of (acc_num, s') \<Rightarrow>
      acc_num \<notin> set (map fst (accounts s)) \<and>
      acc_num = str_int (next_account_number s' - 1) \<and>
      next_account_number s' - 1 < next_account_number s' \<and>
      next_account_number s \<le> next_account_number s' - 1 \<and>
      next_account_number s \<le> next_account_number s' \<and>
      accounts s' = accounts s \<and> users s' = users s)"
  using next_free_spec [of "next_account_number s" "map fst (accounts s)"]
  by (simp add: generate_account_number_def Let_def)

text \<open>
  A stale counter: the table holds 1001 and 1002 while the counter still says 1001. The
  allocation skips both and leaves the counter at 1004.
\<close>

theorem generate_account_number_fresh_witness:
  "generate_account_number (small_bank\<lparr>next_account_number := 1001\<rparr>) =
     (''1003'', small_bank\<lparr>next_account_number := 1004\<rparr>) \<and>
   ''1003'' \<notin> set (map fst (accounts (small_bank\<lparr>next_account_number := 1001\<rparr>)))"
proof -
  have e: "generate_account_number (small_bank\<lparr>next_account_number := 1001\<rparr>) =
     (''1003'', small_bank\<lparr>next_account_number := 1004\<rparr>)"
    by code_simp
  from generate_account_number_fresh [of "small_bank\<lparr>next_account_number := 1001\<rparr>"]
  show ?thesis unfolding e prod.case by blast
qed

section \<open>Interest accrual\<close>

lemma map_of_middle: "k \<notin> fst ` set pre \<Longrightarrow> map_of (pre @ (k, a) # post) k = Some a"
  by (induction pre) auto

lemma update_middle:
  "k \<notin> fst ` set pre \<Longrightarrow> AList.update k v (pre @ (k, a) # post) = pre @ (k, v) # post"
  by (induction pre) auto

lemma record_transaction_middle:
  "k \<notin> fst ` set pre \<Longrightarrow>
   record_transaction ts k ty amt ds (pre @ (k, a) # post) =
     pre @ (k, a\<lparr>transactions := transactions a @
               [\<lparr>timestamp = ts, trans_type = ty, amount = amt, details = ds\<rparr>]\<rparr>) # post"
  by (simp add: record_transaction_def map_of_middle update_middle del: map_of_append)

lemma interest_loop_step:
  "k \<notin> fst ` set pre \<Longrightarrow>
   interest_loop round2 rate stamp (k # ks) (pre @ (k, a) # post) c t =
     (if earns_interest round2 rate a
      then interest_loop round2 rate stamp ks
             (pre @ (k, credit_interest round2 rate (stamp k) a) # post)
             (c + 1) (t + interest_of round2 rate a)
      else interest_loop round2 rate stamp ks (pre @ (k, a) # post) c t)"
  by (simp add: map_of_middle update_middle record_transaction_middle earns_interest_def
      interest_of_def credit_interest_def Let_def del: map_of_append)

lemma interest_loop_run:
  "distinct (map fst (pre @ post)) \<Longrightarrow>
   interest_loop round2 rate stamp (map fst post) (pre @ post) c t =
     (pre @ map (after_interest round2 rate stamp) post,
      c + length (filter (earns_interest round2 rate) (map snd post)),
      foldl (+) t (map (interest_of round2 rate) (filter (earns_interest round2 rate) (map snd post))))"
proof (induction post arbitrary: pre c t)
  case Nil
  then show ?case by simp
next
  case (Cons p post)
  obtain k a where p: "p = (k, a)" by (cases p)
  from Cons.prems p have k: "k \<notin> fst ` set pre" by auto
  show ?case
  proof (cases "earns_interest round2 rate a")
    case True
    let ?a' = "credit_interest round2 rate (stamp k) a"
    from Cons.prems p have d: "distinct (map fst ((pre @ [(k, ?a')]) @ post))" by simp
    from Cons.IH [OF d, of "c + 1" "t + interest_of round2 rate a"] True
    show ?thesis
      by (simp add: p interest_loop_step [OF k] after_interest_def del: interest_loop.simps)
  next
    case False
    from Cons.prems p have d: "distinct (map fst ((pre @ [(k, a)]) @ post))" by simp
    from Cons.IH [OF d, of c t] False show ?thesis
      by (simp add: p interest_loop_step [OF k] after_interest_def del: interest_loop.simps)
  qed
qed

text \<open>
  Claim C6. The interest run visits every account of the table, in order. An account that
  earns interest (balance \<open>> 0\<close> and \<^verbatim>\<open>round(balance * rate, 2)\<close> \<open>> 0\<close>) is credited: the
  interest is added to its balance and one \<^verbatim>\<open>Interest Applied\<close> transaction carrying the
  rate is appended. Every other account, in particular every account with balance \<open>\<le> 0\<close>,
  is left as it is. The run reports the number of accounts credited and the total
  interest, added up in the order of the table, when at least one account was credited.
\<close>

theorem interest_run:
  fixes s :: "'a::{zero,plus,times,linorder} bank"
  assumes "distinct (map fst (accounts s))"
  shows "(case apply_interest_to_all_accounts round2 rate stamp s of (out, s') \<Rightarrow>
      accounts s' = map (after_interest round2 rate stamp) (accounts s) \<and>
      users s' = users s \<and> next_account_number s' = next_account_number s \<and>
      (\<forall>p \<in> set (accounts s). balance (snd p) \<le> 0 \<longrightarrow> after_interest round2 rate stamp p = p) \<and>
      out =
        (let credited = filter (earns_interest round2 rate) (map snd (accounts s)) in
         if accounts s = [] then NoAccountsInSystem
         else if credited = [] then NoInterestApplied
         else InterestApplied (length credited)
                (foldl (+) 0 (map (interest_of round2 rate) credited))))"
proof -
  have l: "interest_loop round2 rate stamp (map fst (accounts s)) (accounts s) 0 0 =
     (map (after_interest round2 rate stamp) (accounts s),
      length (filter (earns_interest round2 rate) (map snd (accounts s))),
      foldl (+) 0 (map (interest_of round2 rate) (filter (earns_interest round2 rate) (map snd (accounts s)))))"
    using interest_loop_run [of "[]" "accounts s" round2 rate stamp 0 0] assms by simp
  have u: "\<forall>p \<in> set (accounts s). balance (snd p) \<le> 0 \<longrightarrow> after_interest round2 rate stamp p = p"
    by (auto simp add: after_interest_def earns_interest_def)
  show ?thesis
    using u by (simp add: apply_interest_to_all_accounts_def l Let_def filter_map)
qed


text \<open>
  The example of the specification: of the balances 0, -5 and 1000 at rate 0.015 only the
  third account is credited, with 15, and the run reports one account and a total of 15.
\<close>

theorem interest_run_witness:
  "distinct (map fst (accounts interest_bank)) \<and>
   apply_interest_to_all_accounts round2_exact (3 / 200) (\<lambda>k. ''2024-12-31 23:59:59'') interest_bank =
     (InterestApplied 1 15,
      interest_bank\<lparr>accounts :=
        [(''1001'', \<lparr>owner_nic = ''X'', balance = 0, transactions = [], created_at = ''c1''\<rparr>),
         (''1002'', \<lparr>owner_nic = ''Y'', balance = - 5, transactions = [], created_at = ''c2''\<rparr>),
         (''1003'', \<lparr>owner_nic = ''Y'', balance = 1015,
            transactions =
              [\<lparr>timestamp = ''2024-12-31 23:59:59'', trans_type = ''Interest Applied'',
                amount = 15, details = [(''rate'', DNum (3 / 200))]\<rparr>],
            created_at = ''c3''\<rparr>)]\<rparr>)"
proof -
  have d: "distinct (map fst (accounts interest_bank))"
    by (simp add: interest_bank_def)
  have r: "round2_exact 15 = 15"
    by (simp add: round2_exact_def Let_def)
  from interest_run [OF d, of round2_exact "3 / 200" "\<lambda>k. ''2024-12-31 23:59:59''"] d
  show ?thesis
    by (simp add: case_prod_beta prod_eq_iff interest_bank_def after_interest_def
        earns_interest_def interest_of_def credit_interest_def r Let_def)
qed

section \<open>The balance follows the recorded transactions\<close>

lemma replays_refl: "replays a a"
  by (simp add: replays_def)

lemma replays_trans:
  assumes "replays a0 a1" and "replays a1 a2"
  shows "replays a0 a2"
proof -
  from assms(1) have "transactions a1 =
      transactions a0 @ drop (length (transactions a0)) (transactions a1)"
    by (metis append_take_drop_id replays_def)
  then obtain new where t: "transactions a1 = transactions a0 @ new" ..
  from assms(2) have "transactions a2 =
      transactions a1 @ drop (length (transactions a1)) (transactions a2)"
    by (metis append_take_drop_id replays_def)
  then obtain new' where t': "transactions a2 = transactions a1 @ new'" ..
  from assms(1) t have b: "balance a1 = foldl apply_transaction (balance a0) new"
    by (simp add: replays_def)
  from assms(2) t' have b': "balance a2 = foldl apply_transaction (balance a1) new'"
    by (simp add: replays_def)
  show ?thesis
    by (simp add: replays_def t t' b b')
qed

lemma deposit_replays:
  fixes s :: "'a::{zero,ord,plus,minus} bank"
  shows "map_of (accounts (snd (make_deposit ts s nic ch es))) n = Some a' \<Longrightarrow>
     \<exists>a0. map_of (accounts s) n = Some a0 \<and> replays a0 a'"
  by (auto simp: make_deposit_def map_of_record_transaction update_conv' replays_def
      apply_transaction_def split: py.splits option.splits if_splits)

lemma withdrawal_replays:
  fixes s :: "'a::{zero,ord,plus,minus} bank"
  shows "map_of (accounts (snd (make_withdrawal ts s nic ch es))) n = Some a' \<Longrightarrow>
     \<exists>a0. map_of (accounts s) n = Some a0 \<and> replays a0 a'"
  by (auto simp: make_withdrawal_def map_of_record_transaction update_conv' replays_def
      apply_transaction_def split: py.splits option.splits if_splits)

lemma transfer_replays:
  fixes s :: "'a::{zero,ord,plus,minus} bank"
  shows "map_of (accounts (snd (transfer_funds ts1 ts2 s nic ch ds es))) n = Some a' \<Longrightarrow>
     \<exists>a0. map_of (accounts s) n = Some a0 \<and> replays a0 a'"
  by (auto simp: transfer_funds_def map_of_record_transaction update_conv' replays_def
      apply_transaction_def split: py.splits option.splits if_splits list.splits)

lemma read_initial_deposit_accepts:
  "read_initial_deposit es = Return d \<Longrightarrow> d = 0 \<or> \<not> d < 0"
  by (induction es rule: read_initial_deposit.induct)
     (auto simp: MIN_INITIAL_DEPOSIT_def split: if_splits)

lemma read_initial_deposit_nonneg:
  "read_initial_deposit es = Return d \<Longrightarrow> (0 :: 'a::linordered_idom) \<le> d"
  using read_initial_deposit_accepts [of es d] by auto

lemma generate_account_number_unused:
  "map_of (accounts s) (fst (generate_account_number s)) = None"
  using next_free_spec [of "next_account_number s" "map fst (accounts s)"]
  by (simp add: generate_account_number_def Let_def map_of_eq_None_iff)

lemma generate_account_number_tables:
  "accounts (snd (generate_account_number s)) = accounts s"
  "users (snd (generate_account_number s)) = users s"
  by (simp_all add: generate_account_number_def Let_def)

lemma create_replays:
  fixes s :: "'a::{zero,ord,plus,minus} bank"
  assumes "map_of (accounts (snd (create_customer_bank_account ts1 ts2 s nic es))) n = Some a'"
  shows "case map_of (accounts s) n of Some a0 \<Rightarrow> replays a0 a' | None \<Rightarrow> just_opened a'"
proof -
  obtain k s1 where g: "generate_account_number s = (k, s1)" by (cases "generate_account_number s")
  from generate_account_number_unused [of s] generate_account_number_tables [of s] g
  have k: "map_of (accounts s) k = None" and s1: "accounts s1 = accounts s" by simp_all
  show ?thesis
    using assms read_initial_deposit_accepts [of es]
    by (auto simp: create_customer_bank_account_def g k s1 map_of_record_transaction
        update_conv' replays_def just_opened_def Let_def
        split: py.splits option.splits if_splits)
qed

lemma interest_loop_keys:
  "map fst (fst (interest_loop round2 rate stamp ks accs c t)) = map fst accs"
proof (induction ks arbitrary: accs c t)
  case Nil
  show ?case by simp
next
  case (Cons k ks)
  show ?case
    by (simp add: Cons.IH keys_record_transaction keys_update_present Let_def split: option.split)
qed

lemma interest_loop_replays:
  fixes accs :: "(string \<times> 'a::{zero,ord,plus,minus,times} account) list"
  shows "map_of (fst (interest_loop round2 rate stamp ks accs c t)) n = Some a' \<Longrightarrow>
     \<exists>a. map_of accs n = Some a \<and> replays a a'"
proof (induction ks arbitrary: accs c t)
  case Nil
  then show ?case by (simp add: replays_refl)
next
  case (Cons k ks)
  show ?case
  proof (cases "map_of accs k")
    case None
    with Cons show ?thesis by simp
  next
    case (Some a0)
    show ?thesis
    proof (cases "0 < balance a0 \<and> 0 < round2 (balance a0 * rate)")
      case False
      with Some have "interest_loop round2 rate stamp (k # ks) accs c t =
          interest_loop round2 rate stamp ks accs c t"
        by (auto simp: Let_def)
      with Cons.prems have "map_of (fst (interest_loop round2 rate stamp ks accs c t)) n = Some a'"
        by simp
      then show ?thesis by (rule Cons.IH)
    next
      case True
      let ?i = "round2 (balance a0 * rate)"
      let ?accs' = "record_transaction (stamp k) k ''Interest Applied'' ?i [(''rate'', DNum rate)]
                     (AList.update k (a0\<lparr>balance := balance a0 + ?i\<rparr>) accs)"
      from Cons.prems Some True
      have "map_of (fst (interest_loop round2 rate stamp ks ?accs' (c + 1) (t + ?i))) n = Some a'"
        by (simp add: Let_def)
      from Cons.IH [OF this] obtain a1 where
        a1: "map_of ?accs' n = Some a1" and g1: "replays a1 a'"
        by blast
      show ?thesis
      proof (cases "n = k")
        case False
        with a1 g1 show ?thesis by (simp add: map_of_record_transaction update_conv')
      next
        case True
        with a1 have "replays a0 a1"
          by (auto simp: map_of_record_transaction update_conv' replays_def apply_transaction_def)
        from this g1 have "replays a0 a'" by (rule replays_trans)
        with Some True show ?thesis by simp
      qed
    qed
  qed
qed

lemma interest_replays:
  fixes s :: "'a::{zero,ord,plus,minus,times} bank"
  assumes "map_of (accounts (snd (apply_interest_to_all_accounts round2 rate stamp s))) n = Some a'"
  shows "\<exists>a0. map_of (accounts s) n = Some a0 \<and> replays a0 a'"
proof -
  obtain accs c t where l:
    "interest_loop round2 rate stamp (map fst (accounts s)) (accounts s) 0 0 = (accs, c, t)"
    by (cases "interest_loop round2 rate stamp (map fst (accounts s)) (accounts s) 0 0")
  from assms l have "map_of (fst (interest_loop round2 rate stamp (map fst (accounts s)) (accounts s) 0 0)) n = Some a'"
    by (simp add: apply_interest_to_all_accounts_def Let_def split: if_splits)
  from interest_loop_replays [OF this] show ?thesis .
qed

lemma perform_replays:
  fixes s :: "'a::{zero,ord,plus,minus,times} bank"
  assumes "map_of (accounts (snd (perform round2 rate s c))) n = Some a'"
  shows "case map_of (accounts s) n of Some a0 \<Rightarrow> replays a0 a' | None \<Rightarrow> just_opened a'"
proof (cases c)
  case (CreateAccount ts1 ts2 nic es)
  with assms show ?thesis by (simp add: create_replays)
next
  case (DepositFunds ts nic ch es)
  with assms deposit_replays [of ts s nic ch es n a'] show ?thesis by auto
next
  case (WithdrawFunds ts nic ch es)
  with assms withdrawal_replays [of ts s nic ch es n a'] show ?thesis by auto
next
  case (TransferFunds ts1 ts2 nic ch ds es)
  with assms transfer_replays [of ts1 ts2 s nic ch ds es n a'] show ?thesis by auto
next
  case (ApplyInterest stamp)
  with assms interest_replays [of round2 rate stamp s n a'] show ?thesis by auto
qed

lemma perform_keeps_accounts:
  "map_of (accounts (snd (perform round2 rate s c))) n = None \<Longrightarrow> map_of (accounts s) n = None"
proof (cases c)
  case (CreateAccount ts1 ts2 nic es)
  assume "map_of (accounts (snd (perform round2 rate s c))) n = None"
  with CreateAccount show ?thesis
    by (auto simp: create_customer_bank_account_def generate_account_number_def Let_def
        map_of_record_transaction update_conv' split: py.splits option.splits if_splits)
next
  case (DepositFunds ts nic ch es)
  assume "map_of (accounts (snd (perform round2 rate s c))) n = None"
  with DepositFunds show ?thesis
    by (auto simp: make_deposit_def map_of_record_transaction update_conv'
        split: py.splits option.splits if_splits)
next
  case (WithdrawFunds ts nic ch es)
  assume "map_of (accounts (snd (perform round2 rate s c))) n = None"
  with WithdrawFunds show ?thesis
    by (auto simp: make_withdrawal_def map_of_record_transaction update_conv'
        split: py.splits option.splits if_splits)
next
  case (TransferFunds ts1 ts2 nic ch ds es)
  assume "map_of (accounts (snd (perform round2 rate s c))) n = None"
  with TransferFunds show ?thesis
    by (auto simp: transfer_funds_def map_of_record_transaction update_conv'
        split: py.splits option.splits if_splits list.splits)
next
  case (ApplyInterest stamp)
  assume a: "map_of (accounts (snd (perform round2 rate s c))) n = None"
  have "map fst (accounts (snd (apply_interest_to_all_accounts round2 rate stamp s))) =
      map fst (accounts s)"
    using interest_loop_keys [of round2 rate stamp "map fst (accounts s)" "accounts s" 0 0]
    by (simp add: apply_interest_to_all_accounts_def Let_def case_prod_beta)
  with a ApplyInterest show ?thesis
    by (simp add: map_of_eq_None_iff del: map_map) (metis list.set_map)
qed

text \<open>
  Where addition is exact (an abelian group, as the integers or the rationals), applying
  transactions one after the other to a balance is adding their signed sum to it: there
  \<open>replays a0 a\<close> says that the balance of \<open>a\<close> is the balance of \<open>a0\<close> plus the signed sum
  of the transactions recorded since.
\<close>

lemma foldl_apply_transaction_exact:
  "foldl apply_transaction (b :: 'a::ab_group_add) txs = b + sum_list (map signed_amount txs)"
  by (induction txs arbitrary: b)
     (simp_all add: apply_transaction_def signed_amount_def algebra_simps)

lemma replays_exact:
  fixes a :: "'a::ab_group_add account"
  shows "replays a0 a \<Longrightarrow>
     balance a =
       balance a0 + sum_list (map signed_amount (drop (length (transactions a0)) (transactions a)))"
  by (simp add: replays_def foldl_apply_transaction_exact)

text \<open>
  Claim C1, as the code has it. Take any state, any finite sequence of menu choices
  (opening an account, deposit, withdrawal, transfer, interest run; a choice that is
  turned away changes nothing) and any account of the final state. If the account was
  there at the start, its transaction list is the one it started with followed by the
  transactions recorded during the sequence, and its final balance is the balance it
  started with after the recorded transactions have been applied to it one after the
  other, in the order of the list: a \<^verbatim>\<open>Withdrawal\<close> and a \<^verbatim>\<open>Transfer Sent\<close> subtract their
  amount, every other transaction adds it. If the account was opened during the
  sequence, the same holds from the account as it was opened: balance the initial
  deposit, with one \<^verbatim>\<open>Initial Deposit\<close> transaction of that amount when the deposit is
  \<open>> 0\<close>. This holds in every arithmetic, that of floats included, since no law of
  addition is used. That the balance is the starting balance \<^emph>\<open>plus the signed sum\<close> of the
  recorded amounts follows where addition is exact (lemma \<open>replays_exact\<close>) and fails where
  it rounds.
\<close>

theorem balance_replays_transactions:
  fixes s :: "'a::{zero,ord,plus,minus,times} bank"
  assumes "map_of (accounts (session round2 rate s cs)) n = Some a"
  shows "case map_of (accounts s) n of
           Some a0 \<Rightarrow> replays a0 a
         | None \<Rightarrow> (\<exists>a1. just_opened a1 \<and> replays a1 a)"
  using assms
proof (induction cs arbitrary: s)
  case Nil
  then show ?case by (simp add: replays_refl)
next
  case (Cons c cs)
  let ?s1 = "snd (perform round2 rate s c)"
  from Cons.prems have "map_of (accounts (session round2 rate ?s1 cs)) n = Some a" by simp
  then have g: "case map_of (accounts ?s1) n of
                  Some a0 \<Rightarrow> replays a0 a
                | None \<Rightarrow> (\<exists>a1. just_opened a1 \<and> replays a1 a)"
    by (rule Cons.IH)
  show ?case
  proof (cases "map_of (accounts ?s1) n")
    case None
    then have "map_of (accounts s) n = None" by (rule perform_keeps_accounts)
    with None g show ?thesis by simp
  next
    case (Some a1)
    with g have r: "replays a1 a" by simp
    from Some have p: "case map_of (accounts s) n of
                         Some a0 \<Rightarrow> replays a0 a1 | None \<Rightarrow> just_opened a1"
      by (rule perform_replays)
    show ?thesis
    proof (cases "map_of (accounts s) n")
      case None
      with p r show ?thesis by auto
    next
      case (Some a0)
      with p have "replays a0 a1" by simp
      from this r have "replays a0 a" by (rule replays_trans)
      with Some show ?thesis by simp
    qed
  qed
qed

text \<open>
  Customer Y opens a third account with 25, customer X deposits 50 into account 1001,
  withdraws 30, sends 40 to account 1002, and the interest run (2 percent, cut to whole
  units) credits 1. Account 1001 started at 100 and ends at 81, which is 100 after
  \<open>+ 50\<close>, \<open>- 30\<close>, \<open>- 40\<close> and \<open>+ 1\<close>; the new account 1003 is opened with 25 and stays
  there. In the arithmetic that rounds, account 1001 holds 12 and receives two deposits
  of 1: each addition gives 12 again, and 12 is what applying the two transactions to
  12 gives.
\<close>

theorem balance_replays_transactions_witness:
  "map_of (accounts (session (\<lambda>x. x div 100) 2 small_bank busy_day)) ''1001'' =
     Some \<lparr>owner_nic = ''X'', balance = 81,
           transactions =
             [\<lparr>timestamp = ''2024-01-01 10:00:00'', trans_type = ''Initial Deposit'',
               amount = 100, details = []\<rparr>,
              \<lparr>timestamp = ''d2'', trans_type = ''Deposit'', amount = 50, details = []\<rparr>,
              \<lparr>timestamp = ''d4'', trans_type = ''Withdrawal'', amount = 30, details = []\<rparr>,
              \<lparr>timestamp = ''d5'', trans_type = ''Transfer Sent'', amount = 40,
               details = [(''to_account'', DStr ''1002'')]\<rparr>,
              \<lparr>timestamp = ''d7'', trans_type = ''Interest Applied'', amount = 1,
               details = [(''rate'', DNum 2)]\<rparr>],
           created_at = ''2024-01-01 10:00:00''\<rparr> \<and>
   map_of (accounts small_bank) ''1001'' = Some account_1001 \<and>
   balance account_1001 = 100 \<and>
   (81 :: int) = 100 + 50 - 30 - 40 + 1 \<and>
   map_of (accounts (session (\<lambda>x. x div 100) 2 small_bank busy_day)) ''1003'' =
     Some \<lparr>owner_nic = ''Y'', balance = 25,
           transactions =
             [\<lparr>timestamp = ''d1'', trans_type = ''Initial Deposit'', amount = 25,
               details = []\<rparr>],
           created_at = ''d0''\<rparr> \<and>
   map_of (accounts small_bank) ''1003'' = None \<and>
   map_of (accounts (session id 0 toy_bank two_small_deposits)) ''1001'' =
     Some \<lparr>owner_nic = ''X'', balance = Finite 12,
           transactions =
             [\<lparr>timestamp = ''t1'', trans_type = ''Deposit'', amount = Finite 1, details = []\<rparr>,
              \<lparr>timestamp = ''t2'', trans_type = ''Deposit'', amount = Finite 1, details = []\<rparr>],
           created_at = ''2024-01-01 10:00:00''\<rparr> \<and>
   foldl apply_transaction (Finite 12)
     [\<lparr>timestamp = ''t1'', trans_type = ''Deposit'', amount = Finite 1, details = []\<rparr>,
      \<lparr>timestamp = ''t2'', trans_type = ''Deposit'', amount = Finite 1, details = []\<rparr>] =
     Finite 12"
proof -
  have h1: "map_of (accounts (session (\<lambda>x. x div 100) 2 small_bank busy_day)) ''1001'' =
     Some \<lparr>owner_nic = ''X'', balance = 81,
           transactions =
             [\<lparr>timestamp = ''2024-01-01 10:00:00'', trans_type = ''Initial Deposit'',
               amount = 100, details = []\<rparr>,
              \<lparr>timestamp = ''d2'', trans_type = ''Deposit'', amount = 50, details = []\<rparr>,
              \<lparr>timestamp = ''d4'', trans_type = ''Withdrawal'', amount = 30, details = []\<rparr>,
              \<lparr>timestamp = ''d5'', trans_type = ''Transfer Sent'', amount = 40,
               details = [(''to_account'', DStr ''1002'')]\<rparr>,
              \<lparr>timestamp = ''d7'', trans_type = ''Interest Applied'', amount = 1,
               details = [(''rate'', DNum 2)]\<rparr>],
           created_at = ''2024-01-01 10:00:00''\<rparr>"
    by code_simp
  have h2: "map_of (accounts (session (\<lambda>x. x div 100) 2 small_bank busy_day)) ''1003'' =
     Some \<lparr>owner_nic = ''Y'', balance = 25,
           transactions =
             [\<lparr>timestamp = ''d1'', trans_type = ''Initial Deposit'', amount = 25,
               details = []\<rparr>],
           created_at = ''d0''\<rparr>"
    by code_simp
  have h3: "map_of (accounts (session id 0 toy_bank two_small_deposits)) ''1001'' =
     Some \<lparr>owner_nic = ''X'', balance = Finite 12,
           transactions =
             [\<lparr>timestamp = ''t1'', trans_type = ''Deposit'', amount = Finite 1, details = []\<rparr>,
              \<lparr>timestamp = ''t2'', trans_type = ''Deposit'', amount = Finite 1, details = []\<rparr>],
           created_at = ''2024-01-01 10:00:00''\<rparr>"
    by code_simp
  have b1: "map_of (accounts small_bank) ''1001'' = Some account_1001"
    by (simp add: small_bank_def)
  have b2: "map_of (accounts small_bank) ''1003'' = None"
    by (simp add: small_bank_def)
  have b3: "map_of (accounts toy_bank) ''1001'' =
     Some \<lparr>owner_nic = ''X'', balance = Finite 12, transactions = [],
           created_at = ''2024-01-01 10:00:00''\<rparr>"
    by (simp add: toy_bank_def)
  have b4: "balance account_1001 = 100"
    by (simp add: account_1001_def)
  from balance_replays_transactions [OF h1] balance_replays_transactions [OF h2]
    balance_replays_transactions [OF h3] h1 h2 h3 b1 b2 b3 b4
  show ?thesis
    by (simp add: replays_def)
qed

text \<open>
  The claim as the specification words it fails where addition rounds. In the small
  arithmetic a sum of magnitude 8 or more is cut to an even number, so \<open>12 + 1\<close> is 12.
  Account 1001 holds 12 and customer X deposits 1 twice: both deposits succeed and are
  recorded, the final balance is 12, and the initial balance plus the signed sum of the
  recorded amounts is \<open>12 + 2 = 14\<close>. With Python's floats the same happens to a balance
  of \<^verbatim>\<open>1e16\<close> and two deposits of \<^verbatim>\<open>1.0\<close>.
\<close>

theorem balance_is_signed_sum_counterexample:
  "map_of (accounts toy_bank) ''1001'' =
     Some \<lparr>owner_nic = ''X'', balance = Finite 12, transactions = [],
           created_at = ''2024-01-01 10:00:00''\<rparr> \<and>
   fst (make_deposit ''t1'' toy_bank ''X'' [] [Amount (Finite 1)]) = Succeeded \<and>
   fst (make_deposit ''t2'' (snd (make_deposit ''t1'' toy_bank ''X'' [] [Amount (Finite 1)]))
          ''X'' [] [Amount (Finite 1)]) = Succeeded \<and>
   map_of (accounts (session id 0 toy_bank two_small_deposits)) ''1001'' =
     Some \<lparr>owner_nic = ''X'', balance = Finite 12,
           transactions =
             [\<lparr>timestamp = ''t1'', trans_type = ''Deposit'', amount = Finite 1, details = []\<rparr>,
              \<lparr>timestamp = ''t2'', trans_type = ''Deposit'', amount = Finite 1, details = []\<rparr>],
           created_at = ''2024-01-01 10:00:00''\<rparr> \<and>
   Finite 12 +
     signed_total
       [\<lparr>timestamp = ''t1'', trans_type = ''Deposit'', amount = Finite 1, details = []\<rparr>,
        \<lparr>timestamp = ''t2'', trans_type = ''Deposit'', amount = Finite 1, details = []\<rparr>] =
     Finite 14 \<and>
   Finite 12 \<noteq>
     Finite 12 +
       signed_total
         [\<lparr>timestamp = ''t1'', trans_type = ''Deposit'', amount = Finite 1, details = []\<rparr>,
          \<lparr>timestamp = ''t2'', trans_type = ''Deposit'', amount = Finite 1, details = []\<rparr>]"
  by code_simp

section \<open>Balances stay non-negative\<close>

lemma list_all_update: "P (k, v) \<Longrightarrow> list_all P al \<Longrightarrow> list_all P (AList.update k v al)"
  by (induction al) auto

lemma list_all_lookup: "list_all P al \<Longrightarrow> map_of al k = Some a \<Longrightarrow> P (k, a)"
  by (auto simp: list_all_iff dest: map_of_SomeD)

lemma nonneg_record_transaction:
  "list_all (\<lambda>p. 0 \<le> balance (snd p)) accs \<Longrightarrow>
   list_all (\<lambda>p. 0 \<le> balance (snd p)) (record_transaction ts k ty amt ds accs)"
proof (cases "map_of accs k")
  case None
  assume "list_all (\<lambda>p. 0 \<le> balance (snd p)) accs"
  with None show ?thesis by (simp add: record_transaction_def)
next
  case (Some a)
  assume l: "list_all (\<lambda>p. 0 \<le> balance (snd p)) accs"
  from list_all_lookup [OF l Some] have "0 \<le> balance a" by simp
  with l Some show ?thesis by (simp add: record_transaction_def list_all_update)
qed

lemma deposit_nonneg:
  fixes s :: "'a::linordered_idom bank"
  assumes "balances_nonneg s"
  shows "balances_nonneg (snd (make_deposit ts s nic ch es))"
proof -
  have "list_all (\<lambda>p. 0 \<le> balance (snd p))
          (record_transaction ts k ''Deposit'' amt []
             (AList.update k (a\<lparr>balance := balance a + amt\<rparr>) (accounts s)))"
    if "map_of (accounts s) k = Some a" and "read_amount es = Return amt" for k a amt
  proof -
    from list_all_lookup [OF assms [unfolded balances_nonneg_def] that(1)] have "0 \<le> balance a" by simp
    moreover from that(2) have "0 < amt" by (rule read_amount_positive)
    ultimately have "0 \<le> balance a + amt" by simp
    with assms show ?thesis
      by (intro nonneg_record_transaction list_all_update) (simp_all add: balances_nonneg_def)
  qed
  with assms show ?thesis
    by (simp add: make_deposit_def balances_nonneg_def split: py.split option.split)
qed

lemma withdrawal_nonneg:
  fixes s :: "'a::linordered_idom bank"
  assumes "balances_nonneg s"
  shows "balances_nonneg (snd (make_withdrawal ts s nic ch es))"
proof -
  have "list_all (\<lambda>p. 0 \<le> balance (snd p))
          (record_transaction ts k ''Withdrawal'' amt []
             (AList.update k (a\<lparr>balance := balance a - amt\<rparr>) (accounts s)))"
    if "\<not> balance a < amt" for k a amt
    using assms that
    by (intro nonneg_record_transaction list_all_update) (simp_all add: balances_nonneg_def)
  with assms show ?thesis
    by (simp add: make_withdrawal_def balances_nonneg_def split: py.split option.split)
qed

lemma transfer_nonneg:
  fixes s :: "'a::linordered_idom bank"
  assumes "balances_nonneg s"
  shows "balances_nonneg (snd (transfer_funds ts1 ts2 s nic ch ds es))"
proof -
  have "list_all (\<lambda>p. 0 \<le> balance (snd p))
          (record_transaction ts2 d ''Transfer Received'' amt dd
            (record_transaction ts1 k ''Transfer Sent'' amt dk
              (AList.update d (da\<lparr>balance := balance da + amt\<rparr>)
                (AList.update k (a\<lparr>balance := balance a - amt\<rparr>) (accounts s)))))"
    if "\<not> balance a < amt" and "map_of (accounts s) d = Some da" and "read_amount es = Return amt"
    for k a amt d da dd dk
  proof -
    from list_all_lookup [OF assms [unfolded balances_nonneg_def] that(2)] have "0 \<le> balance da" by simp
    moreover from that(3) have "0 < amt" by (rule read_amount_positive)
    ultimately have "0 \<le> balance da + amt" by simp
    with assms that(1) show ?thesis
      by (intro nonneg_record_transaction list_all_update) (simp_all add: balances_nonneg_def)
  qed
  with assms show ?thesis
    by (simp add: transfer_funds_def balances_nonneg_def split: py.split option.split list.split)
qed

lemma create_nonneg:
  fixes s :: "'a::linordered_idom bank"
  assumes "balances_nonneg s"
  shows "balances_nonneg (snd (create_customer_bank_account ts1 ts2 s nic es))"
proof -
  have a: "list_all (\<lambda>p. 0 \<le> balance (snd p))
       (AList.update k \<lparr>owner_nic = nic, balance = d, transactions = [], created_at = ts1\<rparr> (accounts s))"
    if "read_initial_deposit es = Return d" for k d
  proof -
    from that have "0 \<le> d" by (rule read_initial_deposit_nonneg)
    with assms show ?thesis
      by (intro list_all_update) (simp_all add: balances_nonneg_def)
  qed
  have b: "list_all (\<lambda>p. 0 \<le> balance (snd p))
       (record_transaction ts2 k ''Initial Deposit'' d []
          (AList.update k \<lparr>owner_nic = nic, balance = d, transactions = [], created_at = ts1\<rparr>
             (accounts s)))"
    if "read_initial_deposit es = Return d" for k d
    using a [OF that] by (rule nonneg_record_transaction)
  from assms a b show ?thesis
    by (simp add: create_customer_bank_account_def generate_account_number_def balances_nonneg_def
        Let_def split: py.split option.split)
qed

lemma interest_loop_nonneg:
  fixes accs :: "(string \<times> 'a::linordered_idom account) list"
  shows "list_all (\<lambda>p. 0 \<le> balance (snd p)) accs \<Longrightarrow>
     list_all (\<lambda>p. 0 \<le> balance (snd p)) (fst (interest_loop round2 rate stamp ks accs c t))"
proof (induction ks arbitrary: accs c t)
  case Nil
  then show ?case by simp
next
  case (Cons k ks)
  have "list_all (\<lambda>p. 0 \<le> balance (snd p))
          (record_transaction ts k ty i ds (AList.update k (a\<lparr>balance := balance a + i\<rparr>) accs))"
    if "0 < balance a" and "0 < i" for a i ts ty ds
    using that Cons.prems by (intro nonneg_record_transaction list_all_update) simp_all
  with Cons show ?case
    by (simp add: Let_def split: option.split)
qed

text \<open>
  In exact arithmetic (an ordered ring, where every amount is a number) one menu choice
  keeps every balance \<open>\<ge> 0\<close>: the initial-deposit prompt accepts no amount below 0, the
  amount prompts accept only amounts \<open>> 0\<close>, a withdrawal and a transfer go through only
  when the amount does not exceed the source balance, and interest is credited only when
  it is \<open>> 0\<close>.
\<close>

lemma balances_nonneg_exact:
  fixes s :: "'a::linordered_idom bank"
  assumes "balances_nonneg s"
  shows "balances_nonneg (snd (perform round2 rate s c))"
proof (cases c)
  case (ApplyInterest stamp)
  from assms have "list_all (\<lambda>p. 0 \<le> balance (snd p))
      (fst (interest_loop round2 rate stamp (map fst (accounts s)) (accounts s) 0 0))"
    unfolding balances_nonneg_def by (rule interest_loop_nonneg)
  with assms ApplyInterest show ?thesis
    by (simp add: apply_interest_to_all_accounts_def balances_nonneg_def Let_def case_prod_beta)
qed (simp_all add: assms create_nonneg deposit_nonneg withdrawal_nonneg transfer_nonneg)

text \<open>
  Claim C9 does not hold of the code, whose amounts are floats. The amount prompts test
  \<^verbatim>\<open>amount > 0\<close> and the initial-deposit prompt tests
  \<^verbatim>\<open>initial_deposit < MIN_INITIAL_DEPOSIT\<close>, and \<^verbatim>\<open>float\<close> parses the lines \<^verbatim>\<open>inf\<close> and
  \<^verbatim>\<open>nan\<close>; so an infinite amount is taken for a positive one and not-a-number for an
  initial deposit that is not below the minimum.

  Every balance of the bank is \<open>\<ge> 0\<close>. Customer X deposits \<^verbatim>\<open>inf\<close> into account 1001: the
  amount is \<open>> 0\<close>, the deposit succeeds and the balance is infinite, still \<open>\<ge> 0\<close>. X then
  withdraws \<^verbatim>\<open>inf\<close>: the amount is \<open>> 0\<close> and does not exceed the balance, the withdrawal
  succeeds, and the balance is \<^verbatim>\<open>inf - inf\<close>, not-a-number, which is not \<open>\<ge> 0\<close>. Likewise X
  opens an account with the initial deposit \<^verbatim>\<open>nan\<close>: it is not below 0, the account is
  opened, and its balance is not \<open>\<ge> 0\<close>.
\<close>

theorem balances_nonneg_lost:
  "balances_nonneg toy_bank \<and>
   (0 :: toy_float) < PosInf \<and>
   fst (perform id 0 toy_bank (DepositFunds ''t1'' ''X'' [] [Amount PosInf])) = Succeeded \<and>
   balances_nonneg (snd (perform id 0 toy_bank (DepositFunds ''t1'' ''X'' [] [Amount PosInf]))) \<and>
   map_of (accounts (snd (perform id 0 toy_bank (DepositFunds ''t1'' ''X'' [] [Amount PosInf]))))
       ''1001'' =
     Some \<lparr>owner_nic = ''X'', balance = PosInf,
           transactions =
             [\<lparr>timestamp = ''t1'', trans_type = ''Deposit'', amount = PosInf, details = []\<rparr>],
           created_at = ''2024-01-01 10:00:00''\<rparr> \<and>
   PosInf \<le> PosInf \<and>
   fst (perform id 0 (snd (perform id 0 toy_bank (DepositFunds ''t1'' ''X'' [] [Amount PosInf])))
          (WithdrawFunds ''t2'' ''X'' [] [Amount PosInf])) = Succeeded \<and>
   map_of (accounts (session id 0 toy_bank infinite_deposit_and_withdrawal)) ''1001'' =
     Some \<lparr>owner_nic = ''X'', balance = NaN,
           transactions =
             [\<lparr>timestamp = ''t1'', trans_type = ''Deposit'', amount = PosInf, details = []\<rparr>,
              \<lparr>timestamp = ''t2'', trans_type = ''Withdrawal'', amount = PosInf, details = []\<rparr>],
           created_at = ''2024-01-01 10:00:00''\<rparr> \<and>
   \<not> (0 :: toy_float) \<le> NaN \<and>
   \<not> balances_nonneg (session id 0 toy_bank infinite_deposit_and_withdrawal) \<and>
   \<not> NaN < (0 :: toy_float) \<and>
   fst (perform id 0 toy_bank (CreateAccount ''t3'' ''t4'' ''X'' [Amount NaN])) = Succeeded \<and>
   map_of (accounts (snd (perform id 0 toy_bank (CreateAccount ''t3'' ''t4'' ''X'' [Amount NaN]))))
       ''1002'' =
     Some \<lparr>owner_nic = ''X'', balance = NaN, transactions = [], created_at = ''t3''\<rparr> \<and>
   \<not> balances_nonneg (snd (perform id 0 toy_bank (CreateAccount ''t3'' ''t4'' ''X'' [Amount NaN])))"
  by code_simp

section \<open>Splitting, joining and stripping\<close>

lemma starts_with_self: "starts_with sep (sep @ rest)"
  by (simp add: starts_with_def)

lemma starts_with_shorter:
  assumes "starts_with sep (s @ sep @ rest)" and "s \<noteq> []" and "sep \<noteq> []"
  shows "starts_with sep (s @ butlast sep)"
proof -
  have l: "length sep \<le> length (s @ butlast sep)"
    using assms(2,3) by (cases s) simp_all
  have "s @ sep @ rest = (s @ butlast sep) @ (last sep # rest)"
    using assms(3) by simp
  then have "take (length sep) (s @ sep @ rest) = take (length sep) (s @ butlast sep)"
    using l by (metis take_append diff_is_0_eq' take_0 append_Nil2)
  with assms(1) show ?thesis by (simp add: starts_with_def)
qed

lemma split_from_field:
  "sep \<noteq> [] \<Longrightarrow> \<not> occurs sep (f @ butlast sep) \<Longrightarrow>
   split_from sep cur (f @ sep @ rest) = (cur @ f) # split_from sep [] rest"
proof (induction f arbitrary: cur)
  case Nil
  then obtain c cs where sep: "sep = c # cs" by (cases sep) auto
  have "starts_with sep (c # cs @ rest)"
    using starts_with_self [of sep rest] by (simp add: sep)
  then show ?case using Nil(1) by (simp add: sep)
next
  case (Cons c f)
  from Cons.prems(2) have n1: "\<not> starts_with sep ((c # f) @ butlast sep)"
    and n2: "\<not> occurs sep (f @ butlast sep)" by simp_all
  from n1 Cons.prems(1) have "\<not> starts_with sep ((c # f) @ sep @ rest)"
    using starts_with_shorter [of sep "c # f" rest] by blast
  then have "split_from sep cur ((c # f) @ sep @ rest) = split_from sep (cur @ [c]) (f @ sep @ rest)"
    by simp
  also have "\<dots> = ((cur @ [c]) @ f) # split_from sep [] rest"
    using Cons.prems(1) n2 by (rule Cons.IH)
  finally show ?case by simp
qed

lemma split_from_last: "\<not> occurs sep f \<Longrightarrow> split_from sep cur f = [cur @ f]"
  by (induction f arbitrary: cur) simp_all

lemma split_join:
  "sep \<noteq> [] \<Longrightarrow> fs \<noteq> [] \<Longrightarrow>
   list_all (\<lambda>f. \<not> occurs sep (f @ butlast sep)) (butlast fs) \<Longrightarrow> \<not> occurs sep (last fs) \<Longrightarrow>
   py_split sep (py_join sep fs) = fs"
proof (induction sep fs rule: py_join.induct)
  case (1 sep)
  then show ?case by simp
next
  case (2 sep x)
  then show ?case by (simp add: py_split_def split_from_last)
next
  case (3 sep x y ys)
  from 3 have "py_split sep (py_join sep (y # ys)) = y # ys" by simp
  with 3 show ?case by (simp add: py_split_def split_from_field)
qed

lemma py_strip_id:
  "s = [] \<or> (\<not> is_space (hd s) \<and> \<not> is_space (last s)) \<Longrightarrow> py_strip s = s"
proof (cases s)
  case Nil
  then show ?thesis by (simp add: py_strip_def)
next
  case (Cons c cs)
  assume "s = [] \<or> (\<not> is_space (hd s) \<and> \<not> is_space (last s))"
  with Cons have h: "\<not> is_space c" and l: "\<not> is_space (last s)" by simp_all
  from h Cons have a: "dropWhile is_space s = s" by simp
  from Cons have "rev s \<noteq> []" by simp
  with l have "\<not> is_space (hd (rev s))" by (simp add: hd_rev)
  then have "dropWhile is_space (rev s) = rev s" using \<open>rev s \<noteq> []\<close>
    by (cases "rev s") simp_all
  with a show ?thesis by (simp add: py_strip_def)
qed

lemma length_split_from_Nil:
  "length (split_from sep cur s) = length (split_from sep [] s)"
proof (induction s arbitrary: cur)
  case Nil
  show ?case by simp
next
  case (Cons c s)
  from Cons [of "cur @ [c]"] Cons [of "[c]"] show ?case by auto
qed

lemma length_split_from:
  "length (split_from sep cur s) = length (split_from sep cur' s)"
  using length_split_from_Nil [of sep cur s] length_split_from_Nil [of sep cur' s] by simp

lemma starts_with_no_space:
  assumes "list_all (\<lambda>c. \<not> is_space c) sep" and "sep \<noteq> []" and "is_space c"
  shows "\<not> starts_with sep (c # cs)"
proof
  assume "starts_with sep (c # cs)"
  with assms(2) have "hd sep = c" by (cases sep) (auto simp: starts_with_def)
  with assms show False by (cases sep) auto
qed

lemma length_split_leading:
  assumes "list_all (\<lambda>c. \<not> is_space c) sep" and "sep \<noteq> []"
  shows "length (split_from sep cur (dropWhile is_space s)) = length (split_from sep cur s)"
proof (induction s arbitrary: cur)
  case Nil
  show ?case by simp
next
  case (Cons c s)
  show ?case
  proof (cases "is_space c")
    case True
    with assms have "\<not> starts_with sep (c # s)" by (rule starts_with_no_space)
    with True Cons [of cur] show ?thesis
      using length_split_from [of sep "cur @ [c]" s cur] by simp
  next
    case False
    then show ?thesis by simp
  qed
qed

lemma starts_with_snoc_space:
  assumes "list_all (\<lambda>c. \<not> is_space c) sep" and "sep \<noteq> []" and "is_space c"
  shows "starts_with sep (s @ [c]) \<longleftrightarrow> starts_with sep s"
proof (cases "length sep \<le> length s")
  case True
  then have "take (length sep) (s @ [c]) = take (length sep) s" by simp
  then show ?thesis unfolding starts_with_def by (rule arg_cong)
next
  case False
  then have t: "take (length sep) (s @ [c]) = s @ [c]" and n: "take (length sep) s \<noteq> sep"
    by auto
  have "s @ [c] \<noteq> sep"
    using assms(1,3) by auto
  with t n show ?thesis unfolding starts_with_def by metis
qed

lemma starts_with_length: "starts_with sep s \<Longrightarrow> length sep \<le> length s"
proof -
  assume "starts_with sep s"
  then have "length (take (length sep) s) = length sep"
    unfolding starts_with_def by (rule arg_cong)
  then show ?thesis by simp
qed

lemma length_split_snoc_space:
  assumes "list_all (\<lambda>c. \<not> is_space c) sep" and "sep \<noteq> []" and "is_space c"
  shows "length (split_from sep cur (s @ [c])) = length (split_from sep cur s)"
  using assms
proof (induction sep cur s rule: split_from.induct)
  case (1 sep cur)
  then have "\<not> starts_with sep [c]" by (intro starts_with_no_space)
  then show ?case by simp
next
  case (2 sep cur d ds)
  from 2(3-5) have e: "starts_with sep ((d # ds) @ [c]) \<longleftrightarrow> starts_with sep (d # ds)"
    by (rule starts_with_snoc_space)
  show ?case
  proof (cases "starts_with sep (d # ds)")
    case True
    then have "length sep \<le> length (d # ds)" by (rule starts_with_length)
    then have dr: "drop (length sep) ((d # ds) @ [c]) = drop (length sep) (d # ds) @ [c]"
      by (simp only: drop_append) simp
    from 2(1) [OF _ 2(3-5)] True 2(4)
    have "length (split_from sep [] (drop (length sep) (d # ds) @ [c])) =
          length (split_from sep [] (drop (length sep) (d # ds)))" by simp
    with True e dr 2(4) show ?thesis by simp
  next
    case False
    from 2(2) [OF _ 2(3-5)] False
    have "length (split_from sep (cur @ [d]) (ds @ [c])) = length (split_from sep (cur @ [d]) ds)"
      by simp
    with False e show ?thesis by simp
  qed
qed

lemma length_split_trailing:
  assumes "list_all (\<lambda>c. \<not> is_space c) sep" and "sep \<noteq> []"
  shows "length (split_from sep cur (rev (dropWhile is_space (rev s)))) = length (split_from sep cur s)"
proof (induction s rule: rev_induct)
  case Nil
  show ?case by simp
next
  case (snoc c s)
  show ?case
  proof (cases "is_space c")
    case True
    with assms have "length (split_from sep cur (s @ [c])) = length (split_from sep cur s)"
      by (rule length_split_snoc_space)
    with True snoc show ?thesis by simp
  next
    case False
    then show ?thesis by simp
  qed
qed

lemma length_split_strip:
  assumes "list_all (\<lambda>c. \<not> is_space c) sep" and "sep \<noteq> []"
  shows "length (py_split sep (py_strip s)) = length (py_split sep s)"
  using length_split_trailing [OF assms, of "[]" "dropWhile is_space s"]
    length_split_leading [OF assms, of "[]" s]
  by (simp add: py_split_def py_strip_def)

lemma delimiter_no_space:
  "list_all (\<lambda>c. \<not> is_space c) DATA_DELIMITER" "DATA_DELIMITER \<noteq> []"
  by (simp_all add: DATA_DELIMITER_def is_space_def)

lemma list_delimiter_props: "LIST_DELIMITER \<noteq> []" "butlast LIST_DELIMITER = []"
  by (simp_all add: LIST_DELIMITER_def)

lemma tokens_round_trip:
  assumes "list_all token_safe toks"
  shows "filter (\<lambda>t. t \<noteq> []) (py_split LIST_DELIMITER (py_join LIST_DELIMITER toks)) = toks"
proof (cases "toks = []")
  case True
  then show ?thesis by (simp add: py_split_def)
next
  case False
  from assms have a: "list_all (\<lambda>f. \<not> occurs LIST_DELIMITER (f @ butlast LIST_DELIMITER)) (butlast toks)"
    by (auto simp: list_all_iff token_safe_def list_delimiter_props dest: in_set_butlastD)
  from assms False have b: "\<not> occurs LIST_DELIMITER (last toks)"
    by (auto simp: list_all_iff token_safe_def)
  from split_join [OF list_delimiter_props(1) False a b]
  have "py_split LIST_DELIMITER (py_join LIST_DELIMITER toks) = toks" .
  moreover from assms have "filter (\<lambda>t. t \<noteq> []) toks = toks"
    by (auto simp: list_all_iff token_safe_def)
  ultimately show ?thesis by simp
qed

lemma py_join_nonempty: "toks \<noteq> [] \<Longrightarrow> last toks \<noteq> [] \<Longrightarrow> py_join sep toks \<noteq> []"
  by (induction sep toks rule: py_join.induct) auto

lemma last_py_join:
  "toks \<noteq> [] \<Longrightarrow> last toks \<noteq> [] \<Longrightarrow> last (py_join sep toks) = last (last toks)"
proof (induction sep toks rule: py_join.induct)
  case (3 sep x y ys)
  then have "py_join sep (y # ys) \<noteq> []" by (intro py_join_nonempty) simp_all
  with 3 show ?case by simp
qed simp_all

lemma role_safe: "field_safe ''customer''" "field_safe ''admin''"
  by (simp_all add: field_safe_def DATA_DELIMITER_def starts_with_def)

lemma user_line_strip:
  assumes "nic = [] \<or> \<not> is_space (hd nic)" and "tail = [] \<or> \<not> is_space (last tail)"
  shows "py_strip (py_join DATA_DELIMITER [nic, f1, f2, f3, f4, f5, tail]) =
         py_join DATA_DELIMITER [nic, f1, f2, f3, f4, f5, tail]"
proof (rule py_strip_id, rule disjI2, rule conjI)
  show "\<not> is_space (hd (py_join DATA_DELIMITER [nic, f1, f2, f3, f4, f5, tail]))"
    using assms(1) by (cases nic) (simp_all add: DATA_DELIMITER_def is_space_def)
  show "\<not> is_space (last (py_join DATA_DELIMITER [nic, f1, f2, f3, f4, f5, tail]))"
    using assms(2) by (cases "tail = []") (simp_all add: DATA_DELIMITER_def is_space_def)
qed

lemma user_line_split:
  assumes "list_all field_safe [nic, f1, f2, f3, f4, f5]" and "\<not> occurs DATA_DELIMITER tail"
  shows "py_split DATA_DELIMITER (py_join DATA_DELIMITER [nic, f1, f2, f3, f4, f5, tail]) =
         [nic, f1, f2, f3, f4, f5, tail]"
  using assms
  by (intro split_join) (simp_all add: field_safe_def delimiter_no_space)

lemma user_round_trip:
  assumes "codec_safe_user nic u"
  shows "deserialize_user (serialize_user nic u) = Some (nic, u)"
proof (cases "role u = ''customer''")
  case True
  with assms obtain toks where o: "owned_accounts u = Some toks"
    and t: "list_all token_safe toks"
    and d: "\<not> occurs DATA_DELIMITER (py_join LIST_DELIMITER toks)"
    and w: "toks = [] \<or> \<not> is_space (last (last toks))"
    by (auto simp: codec_safe_user_def split: option.splits)
  let ?tail = "py_join LIST_DELIMITER toks"
  from assms True have f: "list_all field_safe [nic, name u, address u, dob u, password_hash u, role u]"
    and h: "nic = [] \<or> \<not> is_space (hd nic)"
    by (simp_all add: codec_safe_user_def role_safe)
  have l: "?tail = [] \<or> \<not> is_space (last ?tail)"
  proof (cases "toks = []")
    case True
    then show ?thesis by simp
  next
    case False
    with t have "last toks \<noteq> []" by (auto simp: list_all_iff token_safe_def)
    with False w show ?thesis by (simp add: last_py_join)
  qed
  have s: "serialize_user nic u =
      py_join DATA_DELIMITER [nic, name u, address u, dob u, password_hash u, role u, ?tail]"
    using True o by (simp add: serialize_user_def)
  show ?thesis
    unfolding s deserialize_user_def user_line_strip [OF h l] user_line_split [OF f d]
    using True o tokens_round_trip [OF t] by (simp add: Let_def)
next
  case False
  with assms have r: "role u = ''admin''" and o: "owned_accounts u = None"
    and f: "list_all field_safe [nic, name u, address u, dob u, password_hash u, role u]"
    and h: "nic = [] \<or> \<not> is_space (hd nic)"
    by (simp_all add: codec_safe_user_def role_safe)
  have s: "serialize_user nic u =
      py_join DATA_DELIMITER [nic, name u, address u, dob u, password_hash u, role u, []]"
    using False by (simp add: serialize_user_def)
  have d: "\<not> occurs DATA_DELIMITER []" by (simp add: DATA_DELIMITER_def)
  have l: "([] :: string) = [] \<or> \<not> is_space (last [])" by simp
  show ?thesis
    unfolding s deserialize_user_def user_line_strip [OF h l] user_line_split [OF f d]
    using r o by (simp add: Let_def)
qed

lemma account_line_strip:
  assumes "acc_num = [] \<or> \<not> is_space (hd acc_num)" and "tail = [] \<or> \<not> is_space (last tail)"
  shows "py_strip (py_join DATA_DELIMITER [acc_num, f1, f2, f3, tail]) =
         py_join DATA_DELIMITER [acc_num, f1, f2, f3, tail]"
proof (rule py_strip_id, rule disjI2, rule conjI)
  show "\<not> is_space (hd (py_join DATA_DELIMITER [acc_num, f1, f2, f3, tail]))"
    using assms(1) by (cases acc_num) (simp_all add: DATA_DELIMITER_def is_space_def)
  show "\<not> is_space (last (py_join DATA_DELIMITER [acc_num, f1, f2, f3, tail]))"
    using assms(2) by (cases "tail = []") (simp_all add: DATA_DELIMITER_def is_space_def)
qed

lemma account_line_split:
  assumes "list_all field_safe [acc_num, f1, f2, f3]" and "\<not> occurs DATA_DELIMITER tail"
  shows "py_split DATA_DELIMITER (py_join DATA_DELIMITER [acc_num, f1, f2, f3, tail]) =
         [acc_num, f1, f2, f3, tail]"
  using assms
  by (intro split_join) (simp_all add: field_safe_def delimiter_no_space)

lemma account_round_trip:
  assumes "codec_safe_account float_str float_parse json_dumps json_loads acc_num a"
  shows "deserialize_account float_parse json_loads
           (serialize_account float_str json_dumps acc_num a) = Return (Some (acc_num, a))"
proof -
  let ?tail = "json_dumps (transactions a)"
  from assms have f: "list_all field_safe [acc_num, owner_nic a, float_str (balance a), created_at a]"
    and h: "acc_num = [] \<or> \<not> is_space (hd acc_num)"
    and d: "\<not> occurs DATA_DELIMITER ?tail"
    and l: "?tail = [] \<or> \<not> is_space (last ?tail)"
    and p: "float_parse (float_str (balance a)) = Some (balance a)"
    and j: "json_loads ?tail = ParsedList (transactions a)"
    by (simp_all add: codec_safe_account_def)
  have s: "serialize_account float_str json_dumps acc_num a =
      py_join DATA_DELIMITER [acc_num, owner_nic a, float_str (balance a), created_at a, ?tail]"
    by (simp add: serialize_account_def)
  show ?thesis
    unfolding s deserialize_account_def account_line_strip [OF h l] account_line_split [OF f d]
    using p j by (simp add: Let_def)
qed


section \<open>The record codec\<close>

text \<open>
  Claim C5, as the code has it. Decoding the encoded line gives the record back for every
  user and every account that the codec can carry (\<open>codec_safe_user\<close>,
  \<open>codec_safe_account\<close>): the fields hold no field delimiter and do not end with its first
  two characters, the line neither starts nor ends with whitespace, the account numbers of
  a customer are not empty and hold no list delimiter, an admin has no list, and the
  library functions for floats and JSON invert each other on the record.
\<close>

theorem record_round_trip:
  "(codec_safe_user nic u \<longrightarrow> deserialize_user (serialize_user nic u) = Some (nic, u)) \<and>
   (codec_safe_account float_str float_parse json_dumps json_loads acc_num a \<longrightarrow>
      deserialize_account float_parse json_loads
        (serialize_account float_str json_dumps acc_num a) = Return (Some (acc_num, a)))"
  using user_round_trip account_round_trip by blast


text \<open>
  A customer with one account, a customer with none, a customer with three, an admin, and
  account 1001 with its one transaction all come back from their lines.
\<close>

theorem record_round_trip_witness:
  "codec_safe_user ''X'' customer_X \<and>
   serialize_user ''X'' customer_X =
     ''X|~|Xena Doe|~|1 Main St|~|1990-05-15|~|5e884898|~|customer|~|1001'' \<and>
   deserialize_user (serialize_user ''X'' customer_X) = Some (''X'', customer_X) \<and>
   codec_safe_user ''Y'' (customer_Y\<lparr>owned_accounts := Some []\<rparr>) \<and>
   deserialize_user (serialize_user ''Y'' (customer_Y\<lparr>owned_accounts := Some []\<rparr>)) =
     Some (''Y'', customer_Y\<lparr>owned_accounts := Some []\<rparr>) \<and>
   codec_safe_user ''Y'' (customer_Y\<lparr>owned_accounts := Some [''1002'', ''1003'', ''1004'']\<rparr>) \<and>
   deserialize_user
     (serialize_user ''Y'' (customer_Y\<lparr>owned_accounts := Some [''1002'', ''1003'', ''1004'']\<rparr>)) =
     Some (''Y'', customer_Y\<lparr>owned_accounts := Some [''1002'', ''1003'', ''1004'']\<rparr>) \<and>
   codec_safe_user ''A'' admin_A \<and>
   deserialize_user (serialize_user ''A'' admin_A) = Some (''A'', admin_A) \<and>
   codec_safe_account demo_float_str demo_float_parse demo_json_dumps demo_json_loads
     ''1001'' account_1001 \<and>
   deserialize_account demo_float_parse demo_json_loads
     (serialize_account demo_float_str demo_json_dumps ''1001'' account_1001) =
     Return (Some (''1001'', account_1001))"
proof -
  have u1: "codec_safe_user ''X'' customer_X" by code_simp
  have u2: "codec_safe_user ''Y'' (customer_Y\<lparr>owned_accounts := Some []\<rparr>)" by code_simp
  have u3: "codec_safe_user ''Y'' (customer_Y\<lparr>owned_accounts := Some [''1002'', ''1003'', ''1004'']\<rparr>)"
    by code_simp
  have u4: "codec_safe_user ''A'' admin_A" by code_simp
  have a1: "codec_safe_account demo_float_str demo_float_parse demo_json_dumps demo_json_loads
     ''1001'' account_1001" by code_simp
  have l1: "serialize_user ''X'' customer_X =
     ''X|~|Xena Doe|~|1 Main St|~|1990-05-15|~|5e884898|~|customer|~|1001''" by code_simp
  note r = record_round_trip [THEN conjunct1, THEN mp]
  note q = record_round_trip [THEN conjunct2, THEN mp]
  from u1 u2 u3 u4 a1 l1 r [OF u1] r [OF u2] r [OF u3] r [OF u4] q [OF a1]
  show ?thesis by blast
qed

text \<open>
  The claim as the specification words it fails without these conditions. The NIC
  \<^verbatim>\<open>ab|~\<close> holds neither delimiter, so the registration accepts it, but on the line its
  last two characters join up with the delimiter that follows: the line still has seven
  fields and decodes to another user. A name that holds the field delimiter, which the
  registration only warns about, gives a line of eight fields that does not decode.
\<close>

theorem record_round_trip_counterexample:
  "''ab|~'' \<noteq> [] \<and>
   \<not> occurs DATA_DELIMITER ''ab|~'' \<and> \<not> occurs LIST_DELIMITER ''ab|~'' \<and>
   serialize_user ''ab|~'' customer_X =
     ''ab|~|~|Xena Doe|~|1 Main St|~|1990-05-15|~|5e884898|~|customer|~|1001'' \<and>
   deserialize_user (serialize_user ''ab|~'' customer_X) =
     Some (''ab'', customer_X\<lparr>name := ''~|Xena Doe''\<rparr>) \<and>
   deserialize_user (serialize_user ''ab|~'' customer_X) \<noteq> Some (''ab|~'', customer_X) \<and>
   deserialize_user (serialize_user ''X'' (customer_X\<lparr>name := ''Xena|~|Doe''\<rparr>)) = None"
  by code_simp

section \<open>Decoding a user line\<close>

text \<open>
  Claim C7. \<^verbatim>\<open>_deserialize_user\<close> is a total function: it raises nothing. It returns
  nothing for a line that does not split into exactly 7 fields (stripping the line does
  not change the number of fields) and for a line whose role field is neither
  \<^verbatim>\<open>customer\<close> nor \<^verbatim>\<open>admin\<close>. For a customer line the owned-accounts field decodes to the
  list of its non-empty tokens, the empty list when the field is empty. For an admin line
  the field is ignored and the user is returned without a list.
\<close>

theorem deserialize_user_cases:
  "(length (py_split DATA_DELIMITER line) \<noteq> 7 \<longrightarrow> deserialize_user line = None) \<and>
   (length (py_split DATA_DELIMITER line) = 7 \<longrightarrow>
      (let parts = py_split DATA_DELIMITER (py_strip line) in
         (parts ! 5 \<noteq> ''customer'' \<and> parts ! 5 \<noteq> ''admin'' \<longrightarrow> deserialize_user line = None) \<and>
         (parts ! 5 = ''customer'' \<longrightarrow>
            deserialize_user line =
              Some (parts ! 0,
                    \<lparr>name = parts ! 1, address = parts ! 2, dob = parts ! 3,
                     password_hash = parts ! 4, role = ''customer'',
                     owned_accounts =
                       Some (filter (\<lambda>t. t \<noteq> []) (py_split LIST_DELIMITER (parts ! 6)))\<rparr>)) \<and>
         (parts ! 5 = ''customer'' \<and> parts ! 6 = [] \<longrightarrow>
            map_option (\<lambda>r. owned_accounts (snd r)) (deserialize_user line) = Some (Some [])) \<and>
         (parts ! 5 = ''admin'' \<longrightarrow>
            deserialize_user line =
              Some (parts ! 0,
                    \<lparr>name = parts ! 1, address = parts ! 2, dob = parts ! 3,
                     password_hash = parts ! 4, role = ''admin'', owned_accounts = None\<rparr>))))"
  using length_split_strip [OF delimiter_no_space, of line]
  by (simp add: deserialize_user_def Let_def py_split_def [of LIST_DELIMITER])


text \<open>
  A line of six fields; a line with the role \<^verbatim>\<open>manager\<close>; a customer line whose last
  field has empty tokens; a customer line whose last field is empty; an admin line that
  carries a stray account number.
\<close>

theorem deserialize_user_cases_witness:
  "length (py_split DATA_DELIMITER ''X|~|Xena Doe|~|1 Main St|~|1990-05-15|~|5e884898|~|customer'') \<noteq> 7 \<and>
   deserialize_user ''X|~|Xena Doe|~|1 Main St|~|1990-05-15|~|5e884898|~|customer'' = None \<and>
   length (py_split DATA_DELIMITER
     ''X|~|Xena Doe|~|1 Main St|~|1990-05-15|~|5e884898|~|manager|~|1001'') = 7 \<and>
   deserialize_user ''X|~|Xena Doe|~|1 Main St|~|1990-05-15|~|5e884898|~|manager|~|1001'' = None \<and>
   deserialize_user ''  X|~|Xena Doe|~|1 Main St|~|1990-05-15|~|5e884898|~|customer|~|1001;;1002; '' =
     Some (''X'', customer_X\<lparr>owned_accounts := Some [''1001'', ''1002'']\<rparr>) \<and>
   deserialize_user ''X|~|Xena Doe|~|1 Main St|~|1990-05-15|~|5e884898|~|customer|~|'' =
     Some (''X'', customer_X\<lparr>owned_accounts := Some []\<rparr>) \<and>
   deserialize_user ''A|~|Ada Poe|~|3 High St|~|1979-02-28|~|ef92b778|~|admin|~|1001'' =
     Some (''A'', admin_A)"
proof -
  have c: "length (py_split DATA_DELIMITER
      ''X|~|Xena Doe|~|1 Main St|~|1990-05-15|~|5e884898|~|customer'') \<noteq> 7"
    by code_simp
  note n = deserialize_user_cases [THEN conjunct1, THEN mp, OF c]
  have e: "length (py_split DATA_DELIMITER
     ''X|~|Xena Doe|~|1 Main St|~|1990-05-15|~|5e884898|~|manager|~|1001'') = 7 \<and>
   deserialize_user ''X|~|Xena Doe|~|1 Main St|~|1990-05-15|~|5e884898|~|manager|~|1001'' = None \<and>
   deserialize_user ''  X|~|Xena Doe|~|1 Main St|~|1990-05-15|~|5e884898|~|customer|~|1001;;1002; '' =
     Some (''X'', customer_X\<lparr>owned_accounts := Some [''1001'', ''1002'']\<rparr>) \<and>
   deserialize_user ''X|~|Xena Doe|~|1 Main St|~|1990-05-15|~|5e884898|~|customer|~|'' =
     Some (''X'', customer_X\<lparr>owned_accounts := Some []\<rparr>) \<and>
   deserialize_user ''A|~|Ada Poe|~|3 High St|~|1979-02-28|~|ef92b778|~|admin|~|1001'' =
     Some (''A'', admin_A)"
    by code_simp
  from c n e show ?thesis by blast
qed

section \<open>Decoding an account line\<close>

text \<open>
  What \<^verbatim>\<open>_deserialize_account\<close> does on every line. It returns nothing for a line that
  does not split into exactly 5 fields. On a line of 5 fields the balance is what
  \<^verbatim>\<open>float\<close> makes of the third field, and 0.0 when \<^verbatim>\<open>float\<close> raises. When \<^verbatim>\<open>json.loads\<close>
  returns a list the transactions are that list; when it returns something else or raises
  \<^verbatim>\<open>json.JSONDecodeError\<close> they are the empty list; when it raises any other exception,
  so does the decoder.
\<close>

lemma deserialize_account_cases:
  "(length (py_split DATA_DELIMITER line) \<noteq> 5 \<longrightarrow>
      deserialize_account float_parse json_loads line = Return None) \<and>
   (length (py_split DATA_DELIMITER line) = 5 \<longrightarrow>
      (let parts = py_split DATA_DELIMITER (py_strip line);
           bal = (case float_parse (parts ! 2) of None \<Rightarrow> 0 | Some b \<Rightarrow> b) in
         (\<forall>l. json_loads (parts ! 4) = ParsedList l \<longrightarrow>
            deserialize_account float_parse json_loads line =
              Return (Some (parts ! 0,
                 \<lparr>owner_nic = parts ! 1, balance = bal, transactions = l,
                  created_at = parts ! 3\<rparr>))) \<and>
         (json_loads (parts ! 4) = JSONDecodeError \<or> json_loads (parts ! 4) = ParsedOther \<longrightarrow>
            deserialize_account float_parse json_loads line =
              Return (Some (parts ! 0,
                 \<lparr>owner_nic = parts ! 1, balance = bal, transactions = [],
                  created_at = parts ! 3\<rparr>))) \<and>
         (\<forall>e. json_loads (parts ! 4) = LoadsRaises e \<longrightarrow>
            deserialize_account float_parse json_loads line = Raise e)))"
  using length_split_strip [OF delimiter_no_space, of line]
  by (auto simp add: deserialize_account_def Let_def)

text \<open>
  A line of three fields; a line whose balance does not parse and whose transactions are a
  JSON object; a line whose transactions are not JSON; the line of account 1001.
\<close>

lemma deserialize_account_examples:
  "deserialize_account demo_float_parse demo_json_loads ''1001|~|X|~|100.0'' = Return None \<and>
   deserialize_account demo_float_parse demo_json_loads
       ''1001|~|X|~|1oo.0|~|2024-01-01 10:00:00|~|{}'' =
     Return (Some (''1001'', \<lparr>owner_nic = ''X'', balance = 0, transactions = [],
                      created_at = ''2024-01-01 10:00:00''\<rparr>)) \<and>
   deserialize_account demo_float_parse demo_json_loads
       ''1001|~|X|~|70.0|~|2024-01-01 10:00:00|~|[{'' =
     Return (Some (''1001'', \<lparr>owner_nic = ''X'', balance = 70, transactions = [],
                      created_at = ''2024-01-01 10:00:00''\<rparr>)) \<and>
   deserialize_account demo_float_parse demo_json_loads
       (''1001|~|X|~|100.0|~|2024-01-01 10:00:00|~|'' @ demo_json_text) =
     Return (Some (''1001'', account_1001))"
  by code_simp

lemma occurs_first_char: "occurs sep s \<Longrightarrow> sep \<noteq> [] \<Longrightarrow> hd sep \<in> set s"
proof (induction s)
  case Nil
  then show ?case by simp
next
  case (Cons c s)
  show ?case
  proof (cases "starts_with sep (c # s)")
    case True
    with Cons.prems(2) have "hd sep = c" by (cases sep) (auto simp: starts_with_def)
    then show ?thesis by simp
  next
    case False
    with Cons show ?thesis by simp
  qed
qed

text \<open>
  Claim C8. The claim says that a line of 5 fields always decodes to a record, with an
  empty transaction list when the transactions field fails to parse. The decoder does so
  when \<^verbatim>\<open>json.loads\<close> raises \<^verbatim>\<open>json.JSONDecodeError\<close> (the lemma above), and that is the
  only exception it catches. Take the line of 5 fields whose last field is an integer of
  4301 digits: \<^verbatim>\<open>json.loads\<close> raises \<^verbatim>\<open>ValueError\<close> on it, and the decoder raises
  \<^verbatim>\<open>ValueError\<close> where the claim has a record with no transactions.
\<close>

theorem deserialize_account_raises:
  "length (py_split DATA_DELIMITER
      (''1001|~|X|~|0.0|~|2024-01-01 10:00:00|~|'' @ replicate 4301 (CHR ''1''))) = 5 \<and>
   demo_float_parse ''0.0'' = Some 0 \<and>
   demo_json_loads (replicate 4301 (CHR ''1'')) = LoadsRaises ValueError \<and>
   deserialize_account demo_float_parse demo_json_loads
      (''1001|~|X|~|0.0|~|2024-01-01 10:00:00|~|'' @ replicate 4301 (CHR ''1'')) =
     Raise ValueError"
proof -
  let ?t = "replicate 4301 (CHR ''1'')"
  have line: "''1001|~|X|~|0.0|~|2024-01-01 10:00:00|~|'' @ ?t =
      py_join DATA_DELIMITER [''1001'', ''X'', ''0.0'', ''2024-01-01 10:00:00'', ?t]"
    by (simp add: DATA_DELIMITER_def)
  have f: "list_all field_safe [''1001'', ''X'', ''0.0'', ''2024-01-01 10:00:00'']"
    by code_simp
  have d: "\<not> occurs DATA_DELIMITER ?t"
  proof
    assume "occurs DATA_DELIMITER ?t"
    then have "hd DATA_DELIMITER \<in> set ?t"
      by (rule occurs_first_char) (simp add: DATA_DELIMITER_def)
    then show False by (simp add: DATA_DELIMITER_def)
  qed
  have h: "''1001'' = [] \<or> \<not> is_space (hd ''1001'')"
    by (simp add: is_space_def)
  have l: "?t = [] \<or> \<not> is_space (last ?t)"
    by (simp add: is_space_def)
  have j: "demo_json_loads ?t = LoadsRaises ValueError"
    by (simp add: demo_json_loads_def list_all_iff is_digit_def)
  have p: "demo_float_parse ''0.0'' = Some 0"
    by (simp add: demo_float_parse_def)
  have r: "deserialize_account demo_float_parse demo_json_loads
      (py_join DATA_DELIMITER [''1001'', ''X'', ''0.0'', ''2024-01-01 10:00:00'', ?t]) =
     Raise ValueError"
    unfolding deserialize_account_def account_line_strip [OF h l] account_line_split [OF f d]
    by (simp add: j Let_def)
  have n: "length (py_split DATA_DELIMITER
      (py_join DATA_DELIMITER [''1001'', ''X'', ''0.0'', ''2024-01-01 10:00:00'', ?t])) = 5"
    unfolding account_line_split [OF f d] by simp
  from n p j r show ?thesis unfolding line by blast
qed

end
